theory Spec2Isabelle
  imports Main "HOL-Library.Sublist"
begin

section \<open>Strings as the program uses them\<close>

text \<open>
  Python strings are modelled as \<open>string\<close>, holding the text in UTF-8: an ASCII character
  is one \<open>char\<close>, any other character is the two to four bytes of its encoding. The
  operations below cut and compare at ASCII characters only, except \<open>strip\<close>, which also
  has to remove the white space outside ASCII.
\<close>

definition isspace :: "char \<Rightarrow> bool" where
  \<comment> \<open>the ASCII characters for which \<open>str.isspace\<close> holds: TAB to CR, FS to US, the blank\<close>
  "isspace c = (let n = (of_char c :: nat) in (9 \<le> n \<and> n \<le> 13) \<or> (28 \<le> n \<and> n \<le> 32))"

definition wide_spaces :: "string list" where
  \<comment> \<open>the characters outside ASCII for which \<open>str.isspace\<close> holds, in UTF-8: U+0085,
      U+00A0, U+1680, U+2000 to U+200A, U+2028, U+2029, U+202F, U+205F, U+3000\<close>
  "wide_spaces =
     [[CHR 0xC2, CHR 0x85], [CHR 0xC2, CHR 0xA0], [CHR 0xE1, CHR 0x9A, CHR 0x80],
      [CHR 0xE2, CHR 0x80, CHR 0x80], [CHR 0xE2, CHR 0x80, CHR 0x81],
      [CHR 0xE2, CHR 0x80, CHR 0x82], [CHR 0xE2, CHR 0x80, CHR 0x83],
      [CHR 0xE2, CHR 0x80, CHR 0x84], [CHR 0xE2, CHR 0x80, CHR 0x85],
      [CHR 0xE2, CHR 0x80, CHR 0x86], [CHR 0xE2, CHR 0x80, CHR 0x87],
      [CHR 0xE2, CHR 0x80, CHR 0x88], [CHR 0xE2, CHR 0x80, CHR 0x89],
      [CHR 0xE2, CHR 0x80, CHR 0x8A], [CHR 0xE2, CHR 0x80, CHR 0xA8],
      [CHR 0xE2, CHR 0x80, CHR 0xA9], [CHR 0xE2, CHR 0x80, CHR 0xAF],
      [CHR 0xE2, CHR 0x81, CHR 0x9F], [CHR 0xE3, CHR 0x80, CHR 0x80]]"

fun space_prefix :: "string list \<Rightarrow> string \<Rightarrow> nat" where
  \<comment> \<open>the length of the first of the given byte sequences the string starts with\<close>
  "space_prefix [] s = 0"
| "space_prefix (p # ps) s = (if take (length p) s = p then length p else space_prefix ps s)"

definition space_len :: "string list \<Rightarrow> string \<Rightarrow> nat" where
  \<comment> \<open>how many bytes of white space the string starts with: one character or none\<close>
  "space_len wide s =
     (case s of [] \<Rightarrow> 0 | c # cs \<Rightarrow> if isspace c then 1 else space_prefix wide s)"

function strip_front :: "string list \<Rightarrow> string \<Rightarrow> string" where
  "strip_front wide s =
     (if space_len wide s = 0 then s else strip_front wide (drop (space_len wide s) s))"
  by pat_completeness auto
termination
  by (relation "measure (\<lambda>(wide, s). length s)") (auto simp: space_len_def split: list.splits)

declare strip_front.simps [simp del]

definition strip :: "string \<Rightarrow> string" where
  \<comment> \<open>\<open>s.strip()\<close>: white space is removed at the front, then at the back (on the
      reversed string, with every byte sequence reversed)\<close>
  "strip s = rev (strip_front (map rev wide_spaces) (rev (strip_front wide_spaces s)))"

definition strip_char :: "char \<Rightarrow> string \<Rightarrow> string" where
  \<comment> \<open>\<open>s.strip(c)\<close> for a one-character argument\<close>
  "strip_char c s = rev (dropWhile (\<lambda>x. x = c) (rev (dropWhile (\<lambda>x. x = c) s)))"

definition startswith :: "string \<Rightarrow> string \<Rightarrow> bool" where
  "startswith s p = (take (length p) s = p)"

definition endswith :: "string \<Rightarrow> string \<Rightarrow> bool" where
  "endswith s p = (length p \<le> length s \<and> drop (length s - length p) s = p)"

function replace_str :: "string \<Rightarrow> string \<Rightarrow> string \<Rightarrow> string" where
  \<comment> \<open>\<open>s.replace(old, new)\<close> for a non-empty \<open>old\<close>: leftmost occurrences, not overlapping\<close>
  "replace_str old new [] = []"
| "replace_str old new (x # xs) =
     (if old \<noteq> [] \<and> take (length old) (x # xs) = old
      then new @ replace_str old new (drop (length old) (x # xs))
      else x # replace_str old new xs)"
  by pat_completeness auto
termination
  by (relation "measure (\<lambda>(old, new, s). length s)") (auto simp: neq_Nil_conv)

fun split_on :: "char \<Rightarrow> string \<Rightarrow> string list" where
  \<comment> \<open>\<open>s.split(c)\<close>: always at least one field\<close>
  "split_on c [] = [[]]"
| "split_on c (x # xs) =
     (if x = c then [] # split_on c xs
      else (case split_on c xs of [] \<Rightarrow> [[x]] | y # ys \<Rightarrow> (x # y) # ys))"

fun join_with :: "string \<Rightarrow> string list \<Rightarrow> string" where
  \<comment> \<open>\<open>sep.join(xs)\<close>\<close>
  "join_with sep [] = []"
| "join_with sep [x] = x"
| "join_with sep (x # y # ys) = x @ sep @ join_with sep (y # ys)"

fun rfind :: "char \<Rightarrow> string \<Rightarrow> nat option" where
  \<comment> \<open>\<open>s.rfind(c)\<close>, with \<open>None\<close> for Python's \<open>-1\<close>\<close>
  "rfind c [] = None"
| "rfind c (x # xs) =
     (case rfind c xs of Some i \<Rightarrow> Some (Suc i)
      | None \<Rightarrow> if x = c then Some 0 else None)"

definition unlines :: "string list \<Rightarrow> string" where
  \<comment> \<open>every line followed by a newline\<close>
  "unlines ls = concat (map (\<lambda>l. l @ [CHR 0x0A]) ls)"

section \<open>Exceptions\<close>

text \<open>
  Every exception the program can meet is a value. \<open>CommandFailed\<close> and \<open>ShareFailed\<close>
  are the two \<open>Exception(...)\<close> objects the program builds itself; they carry what the
  message is formatted from (the command's standard error, the underlying exception).
  A path that leads through a missing component or through a regular file is reported as
  \<open>FileNotFoundError\<close> (Python separates \<open>NotADirectoryError\<close>; both are \<open>OSError\<close>s and
  the program treats them alike). \<open>SystemExit\<close> is not an \<open>Exception\<close> and is kept apart.
\<close>

datatype exn =
    CommandFailed string
  | ShareFailed exn
  | FileNotFoundError
  | FileExistsError
  | IsADirectoryError
  | SameFileError
  | SpawnError
  | EOFError
  | ValueError
  | DataOverflowError

datatype abort = Raised exn | SysExit int

section \<open>pathlib paths (POSIX flavour)\<close>

record ppath =
  root :: string
  tail :: "string list"

definition splitroot :: "string \<Rightarrow> string" where
  \<comment> \<open>the root of \<open>posixpath.splitroot\<close>: empty, one slash, or exactly two\<close>
  "splitroot s =
     (if take 1 s \<noteq> ''/'' then []
      else if take 1 (drop 1 s) \<noteq> ''/'' \<or> take 1 (drop 2 s) = ''/'' then ''/''
      else ''//'')"

definition parse_parts :: "string \<Rightarrow> string list" where
  "parse_parts s = filter (\<lambda>c. c \<noteq> [] \<and> c \<noteq> ''.'') (split_on CHR ''/'' s)"

definition Path :: "string \<Rightarrow> ppath" where
  "Path s = \<lparr>root = splitroot s, tail = parse_parts s\<rparr>"

definition part_ok :: "string \<Rightarrow> bool" where
  \<comment> \<open>what pathlib keeps as one part of a path\<close>
  "part_ok s = (s \<noteq> [] \<and> s \<noteq> ''.'' \<and> CHR ''/'' \<notin> set s)"

definition plain_name :: "string \<Rightarrow> bool" where
  \<comment> \<open>an ordinary file name: a part that is not \<open>..\<close>\<close>
  "plain_name s = (part_ok s \<and> s \<noteq> ''..'')"

definition joinpath :: "ppath \<Rightarrow> string \<Rightarrow> ppath" where
  \<comment> \<open>\<open>p / s\<close>\<close>
  "joinpath p s = (if splitroot s \<noteq> [] then Path s else p\<lparr>tail := tail p @ parse_parts s\<rparr>)"

definition pname :: "ppath \<Rightarrow> string" where
  \<comment> \<open>\<open>p.name\<close>\<close>
  "pname p = (if tail p = [] then [] else last (tail p))"

definition stem :: "ppath \<Rightarrow> string" where
  \<comment> \<open>\<open>p.stem\<close>: the name without its last suffix\<close>
  "stem p =
     (let name = pname p in
      case rfind CHR ''.'' name of
        Some i \<Rightarrow> if 0 < i \<and> i < length name - 1 then take i name else name
      | None \<Rightarrow> name)"

definition parent :: "ppath \<Rightarrow> ppath" where
  \<comment> \<open>\<open>p.parent\<close>\<close>
  "parent p = (if tail p = [] then p else p\<lparr>tail := butlast (tail p)\<rparr>)"

definition pstr :: "ppath \<Rightarrow> string" where
  \<comment> \<open>\<open>str(p)\<close>\<close>
  "pstr p = (let s = root p @ join_with ''/'' (tail p) in if s = [] then ''.'' else s)"

definition relative_to :: "ppath \<Rightarrow> ppath \<Rightarrow> exn + ppath" where
  \<comment> \<open>\<open>p.relative_to(other)\<close>\<close>
  "relative_to p other =
     (if root p = root other \<and> take (length (tail other)) (tail p) = tail other
      then Inr \<lparr>root = [], tail = drop (length (tail other)) (tail p)\<rparr>
      else Inl ValueError)"

section \<open>The file system, the console and the clock\<close>

text \<open>
  A location is the list of names from the root. The tree holds directories and regular
  files; there are no links and no permissions. A file holds bytes or, for an image the
  QR library wrote, the string the image encodes.
\<close>

type_synonym location = "string list"

datatype content = Data string | QRImage string

datatype node = Dir | File content

type_synonym filesystem = "location \<Rightarrow> node option"

record datetime =
  year :: nat
  month :: nat
  day :: nat
  hour :: nat
  minute :: nat
  second :: nat

datatype prompt = RepoPrompt | UrlPrompt | VideoPrompt

datatype message =
    Banner
  | InitGit
  | SetupFailed exn
  | FileMissing
  | Processing
  | SuccessHeader
  | VideoPathLine string
  | PagePathLine string
  | PageUrlLine string
  | QrPathLine string
  | PushNote
  | PushStep1
  | PushStep2
  | ErrorLine exn

datatype outcome = Completed int string string | SpawnFailed

datatype event =
    Exec location "string list" outcome
  | Print message
  | Prompt prompt
  | FsMkdir location
  | FsWrite location content

record world =
  fs :: filesystem
  cwd :: location
  stdin :: "string list"
  now :: datetime
  trace :: "event list"

text \<open>
  What the program does not contain is a parameter: what a child process returns (exit
  status, standard output, standard error; or it cannot be started) and does to the file
  tree, and whether the QR library can encode a string (it raises
  \<open>DataOverflowError\<close> when the data exceeds the largest symbol).
\<close>

record env =
  proc :: "string list \<Rightarrow> location \<Rightarrow> filesystem \<Rightarrow> outcome \<times> filesystem"
  qr_fits :: "string \<Rightarrow> bool"

type_synonym 'a action = "world \<Rightarrow> (exn + 'a) \<times> world"

definition ret :: "'a \<Rightarrow> 'a action" where
  "ret x w = (Inr x, w)"

definition raise :: "exn \<Rightarrow> 'a action" where
  "raise e w = (Inl e, w)"

definition bnd :: "'a action \<Rightarrow> ('a \<Rightarrow> 'b action) \<Rightarrow> 'b action" where
  \<comment> \<open>sequencing: an exception skips the rest, the effects so far stay\<close>
  "bnd m f w = (case m w of (Inl e, w') \<Rightarrow> (Inl e, w') | (Inr x, w') \<Rightarrow> f x w')"

definition emit :: "event \<Rightarrow> world \<Rightarrow> world" where
  "emit e w = w\<lparr>trace := trace w @ [e]\<rparr>"

definition print :: "message \<Rightarrow> unit action" where
  "print m w = (Inr (), emit (Print m) w)"

definition py_input :: "prompt \<Rightarrow> string action" where
  \<comment> \<open>\<open>input(prompt)\<close>: the next line of standard input, \<open>EOFError\<close> at its end\<close>
  "py_input p w =
     (case stdin w of
        [] \<Rightarrow> (Inl EOFError, emit (Prompt p) w)
      | l # ls \<Rightarrow> (Inr l, emit (Prompt p) (w\<lparr>stdin := ls\<rparr>)))"

subsection \<open>Path resolution by the operating system\<close>

fun walk :: "filesystem \<Rightarrow> location \<Rightarrow> string list \<Rightarrow> location option" where
  "walk f cur [] = Some cur"
| "walk f cur (c # cs) =
     (if f cur \<noteq> Some Dir then None
      else if c = [] \<or> c = ''.'' then walk f cur cs
      else if c = ''..'' then walk f (butlast cur) cs
      else walk f (cur @ [c]) cs)"

definition locate :: "world \<Rightarrow> string \<Rightarrow> location option" where
  \<comment> \<open>where a path string leads from the current directory; the last name need not exist\<close>
  "locate w s =
     (if s = [] then None
      else walk (fs w) (if take 1 s = ''/'' then [] else cwd w) (split_on CHR ''/'' s))"

definition os_path_exists :: "world \<Rightarrow> string \<Rightarrow> bool" where
  "os_path_exists w s = (case locate w s of None \<Rightarrow> False | Some l \<Rightarrow> fs w l \<noteq> None)"

definition os_path_isdir :: "world \<Rightarrow> string \<Rightarrow> bool" where
  "os_path_isdir w s = (case locate w s of None \<Rightarrow> False | Some l \<Rightarrow> fs w l = Some Dir)"

definition os_chdir :: "string \<Rightarrow> unit action" where
  "os_chdir s w =
     (case locate w s of
        None \<Rightarrow> (Inl FileNotFoundError, w)
      | Some l \<Rightarrow> if fs w l = Some Dir then (Inr (), w\<lparr>cwd := l\<rparr>) else (Inl FileNotFoundError, w))"

definition mkdir_exist_ok :: "ppath \<Rightarrow> unit action" where
  \<comment> \<open>\<open>p.mkdir(exist_ok=True)\<close>\<close>
  "mkdir_exist_ok p w =
     (case locate w (pstr p) of
        None \<Rightarrow> (Inl FileNotFoundError, w)
      | Some l \<Rightarrow>
          (case fs w l of
             Some Dir \<Rightarrow> (Inr (), w)
           | Some (File c) \<Rightarrow> (Inl FileExistsError, w)
           | None \<Rightarrow> (Inr (), emit (FsMkdir l) (w\<lparr>fs := (fs w)(l \<mapsto> Dir)\<rparr>))))"

definition write_file :: "string \<Rightarrow> content \<Rightarrow> unit action" where
  \<comment> \<open>open for writing (create or truncate), write, close\<close>
  "write_file s c w =
     (case locate w s of
        None \<Rightarrow> (Inl FileNotFoundError, w)
      | Some l \<Rightarrow>
          (case fs w l of
             Some Dir \<Rightarrow> (Inl IsADirectoryError, w)
           | _ \<Rightarrow> (Inr (), emit (FsWrite l c) (w\<lparr>fs := (fs w)(l \<mapsto> File c)\<rparr>))))"

definition copy2 :: "string \<Rightarrow> string \<Rightarrow> unit action" where
  \<comment> \<open>\<open>shutil.copy2(src, dst)\<close>: into \<open>dst\<close> when it is a directory; the same file twice is
      an error; the destination is created or overwritten with the source's bytes\<close>
  "copy2 src dst w =
     (let dst' = (if os_path_isdir w dst
                  then (if dst \<noteq> [] \<and> last dst = CHR ''/'' then dst else dst @ ''/'')
                       @ last (split_on CHR ''/'' src)
                  else dst)
      in if os_path_exists w src \<and> os_path_exists w dst' \<and> locate w src = locate w dst'
         then (Inl SameFileError, w)
         else
           (case locate w src of
              None \<Rightarrow> (Inl FileNotFoundError, w)
            | Some ls \<Rightarrow>
                (case fs w ls of
                   None \<Rightarrow> (Inl FileNotFoundError, w)
                 | Some Dir \<Rightarrow> (Inl IsADirectoryError, w)
                 | Some (File c) \<Rightarrow> write_file dst' c w)))"

subsection \<open>os.path.relpath\<close>

fun norm_comps :: "bool \<Rightarrow> string list \<Rightarrow> string list \<Rightarrow> string list" where
  \<comment> \<open>the loop of \<open>posixpath.normpath\<close>\<close>
  "norm_comps initial new_comps [] = new_comps"
| "norm_comps initial new_comps (c # comps) =
     (if c = [] \<or> c = ''.'' then norm_comps initial new_comps comps
      else if c \<noteq> ''..'' \<or> (\<not> initial \<and> new_comps = [])
              \<or> (new_comps \<noteq> [] \<and> last new_comps = ''..'')
      then norm_comps initial (new_comps @ [c]) comps
      else if new_comps \<noteq> [] then norm_comps initial (butlast new_comps) comps
      else norm_comps initial new_comps comps)"

definition normpath :: "string \<Rightarrow> string" where
  "normpath path =
     (if path = [] then ''.''
      else
        let initial_slashes =
              (if take 1 path = ''/''
               then (if take 2 path = ''//'' \<and> take 3 path \<noteq> ''///'' then 2 else 1)
               else (0::nat));
            comps = norm_comps (initial_slashes \<noteq> 0) [] (split_on CHR ''/'' path);
            p = replicate initial_slashes CHR ''/'' @ join_with ''/'' comps
        in if p = [] then ''.'' else p)"

definition getcwd :: "world \<Rightarrow> string" where
  "getcwd w = ''/'' @ join_with ''/'' (cwd w)"

definition os_path_join :: "string \<Rightarrow> string \<Rightarrow> string" where
  "os_path_join a b =
     (if take 1 b = ''/'' then b
      else if a = [] \<or> last a = CHR ''/'' then a @ b
      else a @ ''/'' @ b)"

definition abspath :: "world \<Rightarrow> string \<Rightarrow> string" where
  "abspath w path =
     normpath (if take 1 path = ''/'' then path else os_path_join (getcwd w) path)"

definition relpath :: "string \<Rightarrow> string \<Rightarrow> string action" where
  \<comment> \<open>\<open>os.path.relpath(path, start)\<close>: lexical, on the absolute forms of both\<close>
  "relpath path start w =
     (if path = [] then (Inl ValueError, w)
      else
        let start_list = filter (\<lambda>x. x \<noteq> []) (split_on CHR ''/'' (abspath w start));
            path_list = filter (\<lambda>x. x \<noteq> []) (split_on CHR ''/'' (abspath w path));
            i = length (longest_common_prefix start_list path_list);
            rel_list = replicate (length start_list - i) ''..'' @ drop i path_list
        in (Inr (if rel_list = [] then ''.'' else join_with ''/'' rel_list), w))"

subsection \<open>strftime\<close>

definition digit :: "nat \<Rightarrow> char" where
  \<comment> \<open>the decimal digit of a number below ten\<close>
  "digit n = ''0123456789'' ! n"

fun show_nat :: "nat \<Rightarrow> string" where
  "show_nat n = (if n < 10 then [digit n] else show_nat (n div 10) @ [digit (n mod 10)])"

declare show_nat.simps [simp del]

definition pad2 :: "nat \<Rightarrow> string" where
  \<comment> \<open>\<open>%m\<close>, \<open>%d\<close>, \<open>%H\<close>, \<open>%M\<close>, \<open>%S\<close>: two digits, zero-padded\<close>
  "pad2 n = (if n < 10 then CHR ''0'' # show_nat n else show_nat n)"


definition strftime :: "datetime \<Rightarrow> string" where
  \<comment> \<open>the format \<open>%Y%m%d_%H%M%S\<close>; \<open>%Y\<close> is the year in decimal, which has four digits
      for every year from 1000 on\<close>
  "strftime t =
     show_nat (year t) @ pad2 (month t) @ pad2 (day t) @ ''_''
     @ pad2 (hour t) @ pad2 (minute t) @ pad2 (second t)"

section \<open>The program\<close>

record sharer =
  repo_path :: ppath
  videos_dir :: ppath
  pages_dir :: ppath
  github_pages_url :: "string option"

record share_info =
  video_path :: string
  page_path :: string
  page_url :: string
  qr_path :: string

definition subprocess_run :: "env \<Rightarrow> string list \<Rightarrow> world \<Rightarrow> outcome \<times> world" where
  \<comment> \<open>\<open>subprocess.run(command, capture_output=True, text=True)\<close>, in the current directory\<close>
  "subprocess_run E command w =
     (case proc E command (cwd w) (fs w) of
        (oc, f') \<Rightarrow> (oc, emit (Exec (cwd w) command oc) (w\<lparr>fs := f'\<rparr>)))"

definition run_command :: "env \<Rightarrow> string list \<Rightarrow> string action" where
  "run_command E command w =
     (case subprocess_run E command w of
        (SpawnFailed, w') \<Rightarrow> (Inl SpawnError, w')
      | (Completed returncode out err, w') \<Rightarrow>
          if returncode \<noteq> 0 then (Inl (CommandFailed err), w')
          else (Inr (strip out), w'))"

definition to_pages_url :: "string \<Rightarrow> string" where
  \<comment> \<open>the rewriting of the remote URL in \<open>_get_github_url\<close>\<close>
  "to_pages_url url0 =
     (let url1 = (if endswith url0 ''.git'' then take (length url0 - 4) url0 else url0);
          url2 = (if startswith url1 ''git@github.com:'' then ''https://'' @ drop 15 url1
                  else url1)
      in replace_str ''github.com'' ''github.io'' url2)"

definition get_github_url :: "env \<Rightarrow> string action" where
  "get_github_url E w =
     (case subprocess_run E [''git'', ''config'', ''--get'', ''remote.origin.url''] w of
        (Completed returncode out err, w') \<Rightarrow>
          if returncode = 0 then (Inr (to_pages_url (strip out)), w')
          else bnd (py_input UrlPrompt) (\<lambda>s. ret (strip s)) w'
      | (SpawnFailed, w') \<Rightarrow> bnd (py_input UrlPrompt) (\<lambda>s. ret (strip s)) w')"

definition gitattributes :: string where
  "gitattributes = unlines
     [''*.mp4 filter=lfs diff=lfs merge=lfs -text'',
      ''*.mkv filter=lfs diff=lfs merge=lfs -text'',
      ''*.mov filter=lfs diff=lfs merge=lfs -text'']"

definition init_git :: "env \<Rightarrow> unit action" where
  \<comment> \<open>the body of \<open>if not (self.repo_path / '.git').exists()\<close>\<close>
  "init_git E =
     bnd (print InitGit) (\<lambda>_.
     bnd (run_command E [''git'', ''init'']) (\<lambda>_.
     bnd (write_file ''.gitattributes'' (Data gitattributes)) (\<lambda>_.
     bnd (run_command E [''git'', ''lfs'', ''install'']) (\<lambda>_.
     ret ()))))"

definition setup_try :: "env \<Rightarrow> sharer \<Rightarrow> sharer action" where
  \<comment> \<open>the \<open>try\<close> block of \<open>setup_repository\<close>\<close>
  "setup_try E self =
     bnd (mkdir_exist_ok (videos_dir self)) (\<lambda>_.
     bnd (mkdir_exist_ok (pages_dir self)) (\<lambda>_.
     bnd (os_chdir (pstr (repo_path self))) (\<lambda>_.
     bnd (\<lambda>w. if \<not> os_path_exists w (pstr (joinpath (repo_path self) ''.git''))
              then init_git E w else ret () w) (\<lambda>_.
     bnd (get_github_url E) (\<lambda>url.
     ret (self\<lparr>github_pages_url := Some url\<rparr>))))))"

definition setup_repository :: "env \<Rightarrow> sharer \<Rightarrow> world \<Rightarrow> (abort + sharer) \<times> world" where
  \<comment> \<open>any exception of the block is printed and the process exits with status 1\<close>
  "setup_repository E self w =
     (case setup_try E self w of
        (Inl e, w') \<Rightarrow> (Inl (SysExit 1), emit (Print (SetupFailed e)) w')
      | (Inr self', w') \<Rightarrow> (Inr self', w'))"

definition GitLFSVideoShare :: "env \<Rightarrow> string \<Rightarrow> world \<Rightarrow> (abort + sharer) \<times> world" where
  \<comment> \<open>\<open>__init__\<close>\<close>
  "GitLFSVideoShare E rp w =
     setup_repository E
       \<lparr>repo_path = Path rp,
        videos_dir = joinpath (Path rp) ''videos'',
        pages_dir = joinpath (Path rp) ''pages'',
        github_pages_url = None\<rparr> w"

definition unsupported_notice :: string where
  \<comment> \<open>the fallback sentence of the template (thirteen CJK characters), as UTF-8\<close>
  "unsupported_notice =
     [CHR 0xE6, CHR 0x82, CHR 0xA8, CHR 0xE7, CHR 0x9A, CHR 0x84, CHR 0xE6, CHR 0xB5,
      CHR 0x8F, CHR 0xE8, CHR 0xA7, CHR 0x88, CHR 0xE5, CHR 0x99, CHR 0xA8, CHR 0xE4,
      CHR 0xB8, CHR 0x8D, CHR 0xE6, CHR 0x94, CHR 0xAF, CHR 0xE6, CHR 0x8C, CHR 0x81,
      CHR 0xE8, CHR 0xA7, CHR 0x86, CHR 0xE9, CHR 0xA2, CHR 0x91, CHR 0xE6, CHR 0x92,
      CHR 0xAD, CHR 0xE6, CHR 0x94, CHR 0xBE, CHR 0xE3, CHR 0x80, CHR 0x82]"

definition html_head :: "string \<Rightarrow> string list" where
  \<open>html_head title =
     ['''',
      ''<!DOCTYPE html>'',
      ''<html lang="zh-CN">'',
      ''<head>'',
      ''    <meta charset="UTF-8">'',
      ''    <meta name="viewport" content="width=device-width, initial-scale=1.0">'',
      ''    <title>'' @ title @ ''</title>'',
      ''    <style>'',
      ''        body {'',
      ''            margin: 0;'',
      ''            padding: 0;'',
      ''            background: #000;'',
      ''            display: flex;'',
      ''            flex-direction: column;'',
      ''            justify-content: center;'',
      ''            align-items: center;'',
      ''            min-height: 100vh;'',
      ''            color: #fff;'',
      ''            font-family: system-ui, -apple-system, sans-serif;'',
      ''        }'',
      ''        .video-container {'',
      ''            width: 100%;'',
      ''            max-width: 1920px;'',
      ''            margin: 20px auto;'',
      ''            padding: 0 20px;'',
      ''            box-sizing: border-box;'',
      ''        }'',
      ''        video {'',
      ''            width: 100%;'',
      ''            max-height: 85vh;'',
      ''            background: #000;'',
      ''        }'',
      ''        h1 {'',
      ''            margin: 20px;'',
      ''            font-size: 24px;'',
      ''            text-align: center;'',
      ''        }'',
      ''    </style>'',
      ''</head>'']\<close>

definition source_line :: "string \<Rightarrow> string" where
  \<open>source_line video_relative_path =
     ''            <source src="/'' @ video_relative_path @ ''" type="video/mp4">''\<close>

definition html_body :: "string \<Rightarrow> string \<Rightarrow> string list" where
  \<open>html_body video_relative_path title =
     [''<body>'',
      ''    <h1>'' @ title @ ''</h1>'',
      ''    <div class="video-container">'',
      ''        <video controls preload="metadata">'',
      source_line video_relative_path,
      ''            '' @ unsupported_notice,
      ''        </video>'',
      ''    </div>'',
      ''</body>'',
      ''</html>'']\<close>

definition html_content :: "string \<Rightarrow> string \<Rightarrow> string" where
  \<comment> \<open>the template of \<open>create_player_page\<close> with its two parameters filled in\<close>
  "html_content video_relative_path title =
     unlines (html_head title @ html_body video_relative_path title)"

definition page_name :: "datetime \<Rightarrow> string \<Rightarrow> string" where
  "page_name t title = strftime t @ ''_'' @ stem (Path title) @ ''.html''"

definition create_player_page :: "sharer \<Rightarrow> ppath \<Rightarrow> string \<Rightarrow> ppath action" where
  "create_player_page self vpath title =
     bnd (relpath (pstr vpath) (pstr (repo_path self))) (\<lambda>video_relative_path.
     (\<lambda>w.
        let ppage = joinpath (pages_dir self) (page_name (now w) title)
        in bnd (write_file (pstr ppage) (Data (html_content video_relative_path title)))
             (\<lambda>_. ret ppage) w))"

definition qr_make :: "env \<Rightarrow> string \<Rightarrow> content action" where
  \<comment> \<open>\<open>add_data\<close>, \<open>make(fit=True)\<close>, \<open>make_image\<close>: the image of the given string\<close>
  "qr_make E data w =
     (if qr_fits E data then (Inr (QRImage data), w) else (Inl DataOverflowError, w))"

definition url_text :: "string option \<Rightarrow> string" where
  \<comment> \<open>how an f-string prints the attribute, which is \<open>None\<close> before setup has filled it\<close>
  "url_text u = (case u of None \<Rightarrow> ''None'' | Some s \<Rightarrow> s)"

definition share_try :: "env \<Rightarrow> sharer \<Rightarrow> string \<Rightarrow> share_info action" where
  \<comment> \<open>the \<open>try\<close> block of \<open>share_video\<close>\<close>
  "share_try E self vp =
     (let video_name = pname (Path vp);
          target_path = joinpath (videos_dir self) video_name
      in
      bnd (copy2 vp (pstr target_path)) (\<lambda>_.
      bnd (create_player_page self target_path video_name) (\<lambda>ppage.
      bnd (\<lambda>w. (relative_to ppage (repo_path self), w)) (\<lambda>page_relative_path.
      let purl = url_text (github_pages_url self) @ ''/'' @ pstr page_relative_path
      in
      bnd (qr_make E purl) (\<lambda>qr_image.
      let pqr = joinpath (joinpath (repo_path self) ''qrcodes'')
                  (stem (Path video_name) @ ''_qr.png'')
      in
      bnd (mkdir_exist_ok (parent pqr)) (\<lambda>_.
      bnd (write_file (pstr pqr) qr_image) (\<lambda>_.
      bnd (run_command E [''git'', ''add'', ''.'']) (\<lambda>_.
      bnd (run_command E [''git'', ''commit'', ''-m'', ''Add video: '' @ video_name]) (\<lambda>_.
      ret \<lparr>video_path = pstr target_path, page_path = pstr ppage,
            page_url = purl, qr_path = pstr pqr\<rparr>)))))))))"

definition share_video :: "env \<Rightarrow> sharer \<Rightarrow> string \<Rightarrow> share_info action" where
  \<comment> \<open>every exception of the block is raised again, wrapped\<close>
  "share_video E self vp w =
     (case share_try E self vp w of
        (Inl e, w') \<Rightarrow> (Inl (ShareFailed e), w')
      | (Inr info, w') \<Rightarrow> (Inr info, w'))"

definition report :: "share_info \<Rightarrow> unit action" where
  \<comment> \<open>the lines printed after a successful share\<close>
  "report info =
     bnd (print SuccessHeader) (\<lambda>_.
     bnd (print (VideoPathLine (video_path info))) (\<lambda>_.
     bnd (print (PagePathLine (page_path info))) (\<lambda>_.
     bnd (print (PageUrlLine (page_url info))) (\<lambda>_.
     bnd (print (QrPathLine (qr_path info))) (\<lambda>_.
     bnd (print PushNote) (\<lambda>_.
     bnd (print PushStep1) (\<lambda>_.
     print PushStep2)))))))"

definition after_setup :: "env \<Rightarrow> sharer \<Rightarrow> unit action" where
  \<comment> \<open>\<open>main\<close> from the second prompt on\<close>
  "after_setup E sh =
     bnd (py_input VideoPrompt) (\<lambda>line.
     let vp = strip_char (CHR 0x22) (strip line)
     in (\<lambda>w.
        if \<not> os_path_exists w vp then print FileMissing w
        else bnd (print Processing) (\<lambda>_.
             bnd (share_video E sh vp) (\<lambda>info.
             report info)) w))"

definition main :: "env \<Rightarrow> world \<Rightarrow> (abort + unit) \<times> world" where
  \<comment> \<open>the first prompt is outside the \<open>try\<close>; inside it every \<open>Exception\<close> is printed,
      and \<open>SystemExit\<close> passes through\<close>
  "main E w0 =
     (case bnd (print Banner) (\<lambda>_. py_input RepoPrompt) w0 of
        (Inl e, w) \<Rightarrow> (Inl (Raised e), w)
      | (Inr line, w1) \<Rightarrow>
          (case GitLFSVideoShare E (strip line) w1 of
             (Inl (SysExit n), w) \<Rightarrow> (Inl (SysExit n), w)
           | (Inl (Raised e), w) \<Rightarrow> (Inr (), emit (Print (ErrorLine e)) w)
           | (Inr sh, w2) \<Rightarrow>
               (case after_setup E sh w2 of
                  (Inl e, w) \<Rightarrow> (Inr (), emit (Print (ErrorLine e)) w)
                | (Inr u, w) \<Rightarrow> (Inr (), w))))"

section \<open>A sample environment\<close>

text \<open>
  The concrete runs below use a git that always succeeds: \<open>git init\<close> creates \<open>.git\<close> in
  the current directory, \<open>git config --get remote.origin.url\<close> prints the configured
  remote (and exits with status 1 when there is none), every other command does nothing.
\<close>

definition sample_git ::
  "string \<Rightarrow> string list \<Rightarrow> location \<Rightarrow> filesystem \<Rightarrow> outcome \<times> filesystem" where
  "sample_git remote command cw f =
     (if command = [''git'', ''init'']
      then (Completed 0 ''Initialized empty Git repository'' [], f(cw @ [''.git''] \<mapsto> Dir))
      else if command = [''git'', ''config'', ''--get'', ''remote.origin.url'']
      then (if remote = [] then (Completed 1 [] [], f)
            else (Completed 0 (remote @ [CHR 0x0A]) [], f))
      else (Completed 0 [] [], f))"

definition sample_env :: "string \<Rightarrow> env" where
  "sample_env remote = \<lparr>proc = sample_git remote, qr_fits = (\<lambda>s. length s \<le> 1273)\<rparr>"

definition sample_fs :: filesystem where
  \<comment> \<open>\<open>/home/repo\<close> is an empty directory, \<open>/home/clip.mkv\<close> a three-byte file\<close>
  "sample_fs =
     [[] \<mapsto> Dir, [''home''] \<mapsto> Dir, [''home'', ''repo''] \<mapsto> Dir,
      [''home'', ''clip.mkv''] \<mapsto> File (Data ''abc'')]"

definition sample_time :: datetime where
  "sample_time = \<lparr>year = 2024, month = 3, day = 9, hour = 7, minute = 5, second = 0\<rparr>"

definition sample_world :: "string list \<Rightarrow> world" where
  \<comment> \<open>started in \<open>/home\<close> with the given lines waiting on standard input\<close>
  "sample_world lines =
     \<lparr>fs = sample_fs, cwd = [''home''], stdin = lines, now = sample_time, trace = []\<rparr>"

definition sample_sharer :: sharer where
  \<comment> \<open>the object the constructor builds for \<open>/home/repo\<close> with the sample remote\<close>
  "sample_sharer =
     \<lparr>repo_path = Path ''/home/repo'',
      videos_dir = joinpath (Path ''/home/repo'') ''videos'',
      pages_dir = joinpath (Path ''/home/repo'') ''pages'',
      github_pages_url = Some ''https://github.io/alice/demo''\<rparr>"

definition ready_fs :: filesystem where
  \<comment> \<open>the sample tree once the repository has been set up\<close>
  "ready_fs =
     sample_fs([''home'', ''repo'', ''videos''] \<mapsto> Dir,
               [''home'', ''repo'', ''pages''] \<mapsto> Dir,
               [''home'', ''repo'', ''.git''] \<mapsto> Dir,
               [''home'', ''repo'', ''.gitattributes''] \<mapsto> File (Data gitattributes))"

definition ready_world :: "string list \<Rightarrow> world" where
  "ready_world lines =
     \<lparr>fs = ready_fs, cwd = [''home'', ''repo''], stdin = lines, now = sample_time,
      trace = []\<rparr>"





definition initialized_world :: "string list \<Rightarrow> world" where
  \<comment> \<open>started in \<open>/home\<close> when \<open>/home/repo\<close> has been set up by an earlier run\<close>
  "initialized_world lines =
     \<lparr>fs = ready_fs, cwd = [''home''], stdin = lines, now = sample_time, trace = []\<rparr>"

definition failing_env :: env where
  \<comment> \<open>a git that refuses every command with status 128\<close>
  "failing_env =
     \<lparr>proc = (\<lambda>command cw f. (Completed 128 [] ''fatal'', f)),
      qr_fits = (\<lambda>s. length s \<le> 1273)\<rparr>"

section \<open>Reading a trace\<close>

definition config_command :: "string list" where
  \<comment> \<open>the one git call that does not go through \<open>_run_command\<close>\<close>
  "config_command = [''git'', ''config'', ''--get'', ''remote.origin.url'']"

fun runner_failure :: "event \<Rightarrow> bool" where
  \<comment> \<open>a command of the command runner that exited with a non-zero status\<close>
  "runner_failure (Exec c command (Completed returncode out err)) =
     (command \<noteq> config_command \<and> returncode \<noteq> 0)"
| "runner_failure e = False"

fun is_exec :: "event \<Rightarrow> bool" where
  "is_exec (Exec c command oc) = True"
| "is_exec e = False"



definition steps :: "(event \<Rightarrow> bool) \<Rightarrow> 'a action \<Rightarrow> bool" where
  \<comment> \<open>the action only appends events; none of them is \<open>bad\<close>, except that an action
      which raises may have a bad event as its very last one\<close>
  "steps bad m =
     (\<forall>w r w'. m w = (r, w') \<longrightarrow>
        (\<exists>evs. trace w' = trace w @ evs
           \<and> (case r of Inr x \<Rightarrow> \<forall>e \<in> set evs. \<not> bad e
                       | Inl x \<Rightarrow> \<forall>e \<in> set (butlast evs). \<not> bad e)))"


section \<open>Properties\<close>

subsection \<open>The derived hosting URL\<close>

text \<open>
  C6. For an HTTPS or SSH GitHub remote the derived base URL should be the pages address
  \<open>https://USER.github.io/REPO\<close>, the format the program's own fallback prompt asks for.
  The rewriting only drops a trailing \<open>.git\<close>, turns the SSH prefix into \<open>https://\<close> and
  replaces \<open>github.com\<close> by \<open>github.io\<close>: for the remote of user \<open>alice\<close> and repository
  \<open>demo\<close> the HTTPS form gives \<open>https://github.io/alice/demo\<close> and the SSH form gives
  \<open>https://alice/demo\<close>; neither is \<open>https://alice.github.io/demo\<close>.
\<close>

theorem to_pages_url_misses_user_site:
  "to_pages_url ''https://github.com/alice/demo.git'' = ''https://github.io/alice/demo''
   \<and> to_pages_url ''https://github.com/alice/demo'' = ''https://github.io/alice/demo''
   \<and> to_pages_url ''git@github.com:alice/demo.git'' = ''https://alice/demo''
   \<and> to_pages_url ''git@github.com:alice/demo'' = ''https://alice/demo''
   \<and> to_pages_url ''https://github.com/alice/demo.git'' \<noteq> ''https://alice.github.io/demo''
   \<and> to_pages_url ''git@github.com:alice/demo.git'' \<noteq> ''https://alice.github.io/demo''"
  by (simp add: to_pages_url_def endswith_def startswith_def)

subsection \<open>Sequencing\<close>

lemma bnd_Inr:
  "bnd m f w = (Inr y, w') \<Longrightarrow> \<exists>x w1. m w = (Inr x, w1) \<and> f x w1 = (Inr y, w')"
  by (auto simp: bnd_def split: prod.splits sum.splits)

lemma bnd_step: "m w = (Inr x, w1) \<Longrightarrow> bnd m f w = f x w1"
  by (simp add: bnd_def)

lemma bnd_fail: "m w = (Inl e, w1) \<Longrightarrow> bnd m f w = (Inl e, w1)"
  by (simp add: bnd_def)

lemma steps_bnd:
  assumes m: "steps bad m" and f: "\<And>x. steps bad (f x)"
  shows "steps bad (bnd m f)"
  unfolding steps_def
proof (intro allI impI)
  fix w r w'
  assume run: "bnd m f w = (r, w')"
  obtain r1 w1 where m1: "m w = (r1, w1)" by (cases "m w")
  from m m1 obtain evs1 where t1: "trace w1 = trace w @ evs1"
    and c1: "case r1 of Inr x \<Rightarrow> \<forall>e \<in> set evs1. \<not> bad e | Inl x \<Rightarrow> \<forall>e \<in> set (butlast evs1). \<not> bad e"
    unfolding steps_def by blast
  show "\<exists>evs. trace w' = trace w @ evs
           \<and> (case r of Inr x \<Rightarrow> \<forall>e \<in> set evs. \<not> bad e
                       | Inl x \<Rightarrow> \<forall>e \<in> set (butlast evs). \<not> bad e)"
  proof (cases r1)
    case (Inl e)
    with run m1 have "r = Inl e" "w' = w1" by (simp_all add: bnd_def)
    with t1 c1 Inl show ?thesis by auto
  next
    case (Inr x)
    with run m1 have fx: "f x w1 = (r, w')" by (simp add: bnd_def)
    from f[of x] fx obtain evs2 where t2: "trace w' = trace w1 @ evs2"
      and c2: "case r of Inr x \<Rightarrow> \<forall>e \<in> set evs2. \<not> bad e | Inl x \<Rightarrow> \<forall>e \<in> set (butlast evs2). \<not> bad e"
      unfolding steps_def by blast
    from c1 Inr have q1: "\<forall>e \<in> set evs1. \<not> bad e" by simp
    have "trace w' = trace w @ (evs1 @ evs2)" using t1 t2 by simp
    moreover have "case r of Inr x \<Rightarrow> \<forall>e \<in> set (evs1 @ evs2). \<not> bad e
                       | Inl x \<Rightarrow> \<forall>e \<in> set (butlast (evs1 @ evs2)). \<not> bad e"
      using q1 c2 by (auto simp: butlast_append split: sum.splits dest: in_set_butlastD)
    ultimately show ?thesis by blast
  qed
qed

lemma steps_dep: "(\<And>v. steps bad (g v)) \<Longrightarrow> steps bad (\<lambda>w. g (h w) w)"
  unfolding steps_def by blast

lemma steps_quiet:
  assumes "\<And>w r w'. m w = (r, w') \<Longrightarrow> \<exists>evs. trace w' = trace w @ evs \<and> (\<forall>e \<in> set evs. \<not> bad e)"
  shows "steps bad m"
  unfolding steps_def using assms by (fastforce split: sum.splits dest: in_set_butlastD)



subsection \<open>What each primitive appends to the trace\<close>

lemma steps_ret: "steps bad (ret x)"
  by (rule steps_quiet) (simp add: ret_def)

lemma steps_pure: "steps bad (\<lambda>w. (r, w))"
  by (rule steps_quiet) simp

lemma steps_print: "steps runner_failure (print m)"
  by (rule steps_quiet) (auto simp: print_def emit_def)

lemma steps_py_input: "steps runner_failure (py_input p)"
  by (rule steps_quiet) (auto simp: py_input_def emit_def split: list.splits)

lemma steps_mkdir: "steps runner_failure (mkdir_exist_ok p)"
  by (rule steps_quiet) (auto simp: mkdir_exist_ok_def emit_def split: option.splits node.splits)

lemma steps_write_file: "steps runner_failure (write_file s c)"
  by (rule steps_quiet) (auto simp: write_file_def emit_def split: option.splits node.splits)

lemma steps_chdir: "steps runner_failure (os_chdir s)"
  by (rule steps_quiet) (auto simp: os_chdir_def split: option.splits if_splits)

lemma steps_copy2: "steps runner_failure (copy2 src dst)"
  by (rule steps_quiet)
     (auto simp: copy2_def Let_def write_file_def emit_def split: option.splits node.splits if_splits)

lemma steps_relpath: "steps runner_failure (relpath a b)"
  by (rule steps_quiet) (auto simp: relpath_def Let_def split: if_splits)

lemma steps_qr_make: "steps runner_failure (qr_make E d)"
  by (rule steps_quiet) (auto simp: qr_make_def split: if_splits)

lemma steps_run_command: "steps runner_failure (run_command E command)"
  unfolding steps_def
  by (auto simp: run_command_def subprocess_run_def emit_def
           split: prod.splits outcome.splits if_splits)

lemma steps_get_github_url: "steps runner_failure (get_github_url E)"
  by (rule steps_quiet)
     (auto simp: get_github_url_def subprocess_run_def emit_def bnd_def ret_def py_input_def
                 config_command_def
           split: prod.splits outcome.splits if_splits list.splits)












subsection \<open>The trace of the program's own functions\<close>

lemmas steps_rules =
  steps_bnd steps_ret steps_pure steps_print steps_py_input steps_mkdir steps_write_file
  steps_chdir steps_copy2 steps_relpath steps_qr_make steps_run_command steps_get_github_url


lemma steps_init_git: "steps runner_failure (init_git E)"
  unfolding init_git_def by (intro steps_rules)


lemma steps_if: "steps bad m1 \<Longrightarrow> steps bad m2 \<Longrightarrow> steps bad (\<lambda>w. if c w then m1 w else m2 w)"
  unfolding steps_def by (auto split: if_splits)



lemma steps_setup_try: "steps runner_failure (setup_try E self)"
  unfolding setup_try_def by (intro steps_rules steps_if steps_init_git)

lemma steps_create_player_page: "steps runner_failure (create_player_page self vpath title)"
  unfolding create_player_page_def Let_def
  by (intro steps_bnd steps_relpath steps_dep[where g = "\<lambda>v. bnd (write_file (pstr (joinpath (pages_dir self) (page_name v title))) (Data (html_content _ title))) (\<lambda>_. ret (joinpath (pages_dir self) (page_name v title)))" and h = now] steps_write_file steps_ret)



lemma steps_share_try: "steps runner_failure (share_try E self vp)"
  unfolding share_try_def Let_def
  by (intro steps_rules steps_create_player_page)


lemma share_video_trace: "share_video E self vp w = (r, w') \<Longrightarrow> \<exists>r0. share_try E self vp w = (r0, w') \<and> (case r0 of Inl e \<Rightarrow> r = Inl (ShareFailed e) | Inr i \<Rightarrow> r = Inr i)"
  by (auto simp: share_video_def split: prod.splits sum.splits)

lemma steps_share_video: "steps runner_failure (share_video E self vp)"
  using steps_share_try[of E self vp] unfolding steps_def
  by (fastforce dest!: share_video_trace split: sum.splits)


lemma steps_report: "steps runner_failure (report info)"
  unfolding report_def by (intro steps_rules)


lemma steps_after_setup: "steps runner_failure (after_setup E sh)"
  unfolding after_setup_def Let_def
  by (intro steps_rules steps_if steps_share_video steps_report)


subsection \<open>A failed command ends the run\<close>

lemma bad_event_position:
  assumes eq: "A @ [x, p] = pre @ e # post"
    and A: "\<forall>a \<in> set A. \<not> bad a" and p: "\<not> bad p" and e: "bad e"
  shows "post = [p]"
proof -
  from e A have "e \<notin> set A" by blast
  with eq obtain pre' where "[x, p] = pre' @ e # post"
    by (auto simp: append_eq_append_conv2 append_eq_Cons_conv Cons_eq_append_conv)
  with p e show ?thesis
    by (auto simp: Cons_eq_append_conv)
qed

lemma failure_then_print:
  assumes clean: "\<forall>a \<in> set pre0. \<not> bad a" "\<forall>a \<in> set (butlast evs). \<not> bad a"
    and p: "\<not> bad p" and e: "bad e"
    and eq: "pre0 @ evs @ [p] = pre @ e # post"
  shows "post = [p]"
proof (cases "evs = []")
  case True
  with eq clean p e show ?thesis
    by (auto simp: append_eq_append_conv2 append_eq_Cons_conv Cons_eq_append_conv)
next
  case False
  then have "pre0 @ evs @ [p] = (pre0 @ butlast evs) @ [last evs, p]" by simp
  with eq have "(pre0 @ butlast evs) @ [last evs, p] = pre @ e # post" by simp
  moreover have "\<forall>a \<in> set (pre0 @ butlast evs). \<not> bad a" using clean by auto
  ultimately show ?thesis using p e by (rule bad_event_position)
qed

lemma no_failure_no_split:
  "\<forall>a \<in> set evs. \<not> bad a \<Longrightarrow> evs = pre @ e # post \<Longrightarrow> bad e \<Longrightarrow> False"
  by auto

lemma main_trace:
  "\<exists>evs. trace (snd (main E w0)) = trace w0 @ evs
     \<and> (\<forall>pre e post. evs = pre @ e # post \<and> runner_failure e \<longrightarrow>
            (\<exists>x. post = [Print (SetupFailed x)] \<or> post = [Print (ErrorLine x)]))"
proof -
  let ?ok = "\<lambda>evs. \<forall>pre e post. evs = pre @ e # post \<and> runner_failure e \<longrightarrow>
            (\<exists>x. post = [Print (SetupFailed x)] \<or> post = [Print (ErrorLine x)])"
  obtain r1 w1 where first: "bnd (print Banner) (\<lambda>_. py_input RepoPrompt) w0 = (r1, w1)"
    by (cases "bnd (print Banner) (\<lambda>_. py_input RepoPrompt) w0")
  have "steps runner_failure (bnd (print Banner) (\<lambda>_. py_input RepoPrompt))"
    by (intro steps_rules)
  with first obtain evs1 where t1: "trace w1 = trace w0 @ evs1"
    and c1: "\<forall>a \<in> set evs1. \<not> runner_failure a"
    unfolding steps_def
    by (fastforce simp: bnd_def print_def py_input_def emit_def split: sum.splits list.splits)
  show ?thesis
  proof (cases r1)
    case (Inl e)
    with first have "snd (main E w0) = w1" by (simp add: main_def)
    moreover have "?ok evs1" using c1 by auto
    ultimately show ?thesis using t1 by metis
  next
    case (Inr line)
    let ?self = "\<lparr>repo_path = Path (strip line),
        videos_dir = joinpath (Path (strip line)) ''videos'',
        pages_dir = joinpath (Path (strip line)) ''pages'',
        github_pages_url = None\<rparr>"
    obtain r2 w2 where su: "setup_try E ?self w1 = (r2, w2)" by (cases "setup_try E ?self w1")
    from steps_setup_try[of E ?self] su obtain evs2 where t2: "trace w2 = trace w1 @ evs2"
      and c2: "case r2 of Inr x \<Rightarrow> \<forall>a \<in> set evs2. \<not> runner_failure a
                        | Inl x \<Rightarrow> \<forall>a \<in> set (butlast evs2). \<not> runner_failure a"
      unfolding steps_def by blast
    show ?thesis
    proof (cases r2)
      case (Inl e)
      have res: "snd (main E w0) = emit (Print (SetupFailed e)) w2"
        using first Inr su Inl by (simp add: main_def GitLFSVideoShare_def setup_repository_def)
      have tr: "trace (snd (main E w0)) = trace w0 @ (evs1 @ evs2 @ [Print (SetupFailed e)])"
        using res t1 t2 by (simp add: emit_def)
      have "?ok (evs1 @ evs2 @ [Print (SetupFailed e)])"
      proof (intro allI impI, elim conjE)
        fix pre ev post
        assume eq: "evs1 @ evs2 @ [Print (SetupFailed e)] = pre @ ev # post" and bad: "runner_failure ev"
        from c2 Inl have b2: "\<forall>a \<in> set (butlast evs2). \<not> runner_failure a" by simp
        have "post = [Print (SetupFailed e)]"
          by (rule failure_then_print[OF c1 b2 _ bad eq]) simp
        then show "\<exists>x. post = [Print (SetupFailed x)] \<or> post = [Print (ErrorLine x)]" by blast
      qed
      with tr show ?thesis by blast
    next
      case sh: (Inr sh)
      from c2 sh have q2: "\<forall>a \<in> set evs2. \<not> runner_failure a" by simp
      obtain r3 w3 where af: "after_setup E sh w2 = (r3, w3)" by (cases "after_setup E sh w2")
      from steps_after_setup[of E sh] af obtain evs3 where t3: "trace w3 = trace w2 @ evs3"
        and c3: "case r3 of Inr x \<Rightarrow> \<forall>a \<in> set evs3. \<not> runner_failure a
                          | Inl x \<Rightarrow> \<forall>a \<in> set (butlast evs3). \<not> runner_failure a"
        unfolding steps_def by blast
      have q12: "\<forall>a \<in> set (evs1 @ evs2). \<not> runner_failure a" using c1 q2 by auto
      show ?thesis
      proof (cases r3)
        case (Inl e)
        have res: "snd (main E w0) = emit (Print (ErrorLine e)) w3"
          using first Inr su sh af Inl
          by (simp add: main_def GitLFSVideoShare_def setup_repository_def)
        have tr: "trace (snd (main E w0)) = trace w0 @ ((evs1 @ evs2) @ evs3 @ [Print (ErrorLine e)])"
          using res t1 t2 t3 by (simp add: emit_def)
        have "?ok ((evs1 @ evs2) @ evs3 @ [Print (ErrorLine e)])"
        proof (intro allI impI, elim conjE)
          fix pre ev post
          assume eq: "(evs1 @ evs2) @ evs3 @ [Print (ErrorLine e)] = pre @ ev # post"
            and bad: "runner_failure ev"
          from c3 Inl have b3: "\<forall>a \<in> set (butlast evs3). \<not> runner_failure a" by simp
          have "post = [Print (ErrorLine e)]"
            by (rule failure_then_print[OF q12 b3 _ bad eq]) simp
          then show "\<exists>x. post = [Print (SetupFailed x)] \<or> post = [Print (ErrorLine x)]" by blast
        qed
        with tr show ?thesis by blast
      next
        case u: (Inr u)
        have res: "snd (main E w0) = w3"
          using first Inr su sh af u
          by (simp add: main_def GitLFSVideoShare_def setup_repository_def)
        have tr: "trace (snd (main E w0)) = trace w0 @ (evs1 @ evs2 @ evs3)"
          using res t1 t2 t3 by simp
        from c3 u have "\<forall>a \<in> set (evs1 @ evs2 @ evs3). \<not> runner_failure a" using q12 by auto
        then have "?ok (evs1 @ evs2 @ evs3)" by (metis no_failure_no_split)
        with tr show ?thesis by blast
      qed
    qed
  qed
qed

text \<open>
  C7. A command run through the command runner raises exactly when its exit status is not
  zero, and returns the stripped standard output otherwise. Such a failure ends the run:
  in the trace of \<open>main\<close>, a runner command with a non-zero status is followed by nothing
  but the one line that reports the error (the setup message before exit status 1, or the
  error line of \<open>main\<close>).
\<close>

theorem nonzero_exit_is_fatal:
  "(subprocess_run E command w = (Completed returncode out err, w1) \<longrightarrow>
      ((\<exists>e. fst (run_command E command w) = Inl e) \<longleftrightarrow> returncode \<noteq> 0)
      \<and> run_command E command w =
          (if returncode \<noteq> 0 then (Inl (CommandFailed err), w1) else (Inr (strip out), w1)))
   \<and> (\<exists>evs. trace (snd (main E w0)) = trace w0 @ evs
        \<and> (\<forall>pre e post. evs = pre @ e # post \<and> runner_failure e \<longrightarrow>
              (\<exists>x. post = [Print (SetupFailed x)] \<or> post = [Print (ErrorLine x)])))"
  using main_trace[of E w0] by (auto simp: run_command_def)

lemma failing_main_trace:
  "trace (snd (main failing_env (sample_world [''/home/repo'']))) =
     [Print Banner, Prompt RepoPrompt, FsMkdir [''home'', ''repo'', ''videos''],
      FsMkdir [''home'', ''repo'', ''pages''], Print InitGit,
      Exec [''home'', ''repo''] [''git'', ''init''] (Completed 128 [] ''fatal'')]
     @ [Print (SetupFailed (CommandFailed ''fatal''))]"
  by code_simp

theorem nonzero_exit_is_fatal_witness:
  "subprocess_run failing_env [''git'', ''init''] (sample_world []) =
     (Completed 128 [] ''fatal'',
      emit (Exec [''home''] [''git'', ''init''] (Completed 128 [] ''fatal'')) (sample_world []))
   \<and> run_command failing_env [''git'', ''init''] (sample_world []) =
     (Inl (CommandFailed ''fatal''),
      emit (Exec [''home''] [''git'', ''init''] (Completed 128 [] ''fatal'')) (sample_world []))
   \<and> runner_failure (Exec [''home'', ''repo''] [''git'', ''init''] (Completed 128 [] ''fatal''))
   \<and> (\<exists>pre x. trace (snd (main failing_env (sample_world [''/home/repo'']))) =
          pre @ [Exec [''home'', ''repo''] [''git'', ''init''] (Completed 128 [] ''fatal''),
                 Print (SetupFailed x)])"
proof -
  let ?w = "sample_world []"
  let ?e = "Exec [''home''] [''git'', ''init''] (Completed 128 [] ''fatal'')"
  have run: "subprocess_run failing_env [''git'', ''init''] ?w = (Completed 128 [] ''fatal'', emit ?e ?w)"
    by (simp add: subprocess_run_def failing_env_def sample_world_def)
  have bad: "runner_failure (Exec [''home'', ''repo''] [''git'', ''init''] (Completed 128 [] ''fatal''))"
    by (simp add: config_command_def)
  note inst = nonzero_exit_is_fatal[of failing_env "[''git'', ''init'']" "?w" 128 "[]" "''fatal''"
      "emit ?e ?w" "sample_world [''/home/repo'']"]
  from inst run have rc: "run_command failing_env [''git'', ''init''] ?w = (Inl (CommandFailed ''fatal''), emit ?e ?w)"
    by simp
  from inst obtain evs where tr: "trace (snd (main failing_env (sample_world [''/home/repo'']))) = trace (sample_world [''/home/repo'']) @ evs"
    and fatal: "\<forall>pre e post. evs = pre @ e # post \<and> runner_failure e \<longrightarrow>
              (\<exists>x. post = [Print (SetupFailed x)] \<or> post = [Print (ErrorLine x)])"
    by blast
  have evs: "evs = [Print Banner, Prompt RepoPrompt, FsMkdir [''home'', ''repo'', ''videos''],
      FsMkdir [''home'', ''repo'', ''pages''], Print InitGit,
      Exec [''home'', ''repo''] [''git'', ''init''] (Completed 128 [] ''fatal'')]
     @ [Print (SetupFailed (CommandFailed ''fatal''))]"
    using tr failing_main_trace by (simp add: sample_world_def)
  from fatal[rule_format, of "[Print Banner, Prompt RepoPrompt, FsMkdir [''home'', ''repo'', ''videos''],
      FsMkdir [''home'', ''repo'', ''pages''], Print InitGit]"
      "Exec [''home'', ''repo''] [''git'', ''init''] (Completed 128 [] ''fatal'')"
      "[Print (SetupFailed (CommandFailed ''fatal''))]"] evs bad
  have "\<exists>x. [Print (SetupFailed (CommandFailed ''fatal''))] = [Print (SetupFailed x)]
          \<or> [Print (SetupFailed (CommandFailed ''fatal''))] = [Print (ErrorLine x)]"
    by simp
  then have "\<exists>pre x. trace (snd (main failing_env (sample_world [''/home/repo'']))) =
          pre @ [Exec [''home'', ''repo''] [''git'', ''init''] (Completed 128 [] ''fatal''),
                 Print (SetupFailed x)]"
    using tr evs by (simp add: sample_world_def)
  with run rc bad show ?thesis by blast
qed

subsection \<open>Splitting and joining at the separator\<close>

lemma split_on_not_Nil [simp]: "split_on c s \<noteq> []"
  by (induction s) (auto split: list.splits)

lemma split_on_append_sep: "split_on c (s @ c # u) = split_on c s @ split_on c u"
  by (induction s) (auto split: list.splits)

lemma split_on_no_sep: "c \<notin> set s \<Longrightarrow> split_on c s = [s]"
  by (induction s) auto



subsection \<open>Resolving a path\<close>






lemma Path_root: "root (Path s) = [] \<or> root (Path s) = ''/'' \<or> root (Path s) = ''//''"
  by (simp add: Path_def splitroot_def)



subsection \<open>The current directory\<close>





subsection \<open>A video path that does not exist\<close>

text \<open>
  C1 as stated fails: the repository is set up before the video path is asked for. In the
  sample run the path \<open>/home/nothing.mkv\<close> does not exist, and still two directories and
  \<open>.gitattributes\<close> are created and three git commands run before the error is printed.
\<close>

theorem setup_runs_before_missing_video_error:
  "\<not> os_path_exists (sample_world [''/home/repo'', ''/home/nothing.mkv'']) ''/home/nothing.mkv''
   \<and> fs (sample_world [''/home/repo'', ''/home/nothing.mkv''])
        [''home'', ''repo'', ''.gitattributes''] = None
   \<and> fs (snd (main (sample_env ''https://github.com/alice/demo.git'')
                 (sample_world [''/home/repo'', ''/home/nothing.mkv''])))
        [''home'', ''repo'', ''.gitattributes''] = Some (File (Data gitattributes))
   \<and> trace (snd (main (sample_env ''https://github.com/alice/demo.git'')
                 (sample_world [''/home/repo'', ''/home/nothing.mkv'']))) =
       [Print Banner, Prompt RepoPrompt,
        FsMkdir [''home'', ''repo'', ''videos''],
        FsMkdir [''home'', ''repo'', ''pages''],
        Print InitGit,
        Exec [''home'', ''repo''] [''git'', ''init'']
          (Completed 0 ''Initialized empty Git repository'' []),
        FsWrite [''home'', ''repo'', ''.gitattributes''] (Data gitattributes),
        Exec [''home'', ''repo''] [''git'', ''lfs'', ''install''] (Completed 0 [] []),
        Exec [''home'', ''repo''] [''git'', ''config'', ''--get'', ''remote.origin.url'']
          (Completed 0 (''https://github.com/alice/demo.git'' @ [CHR 0x0A]) []),
        Prompt VideoPrompt, Print FileMissing]"
  by code_simp

text \<open>
  C1, amended. When the video path typed at the second prompt does not exist, \<open>main\<close>
  prints the error and returns: after the constructor has returned, the only events are
  the prompt and the error line, so no file is written and no command is run from then on,
  and the file tree is the one setup left.
\<close>

theorem missing_video_stops_after_setup:
  assumes "bnd (print Banner) (\<lambda>_. py_input RepoPrompt) w0 = (Inr line, w1)"
    and "GitLFSVideoShare E (strip line) w1 = (Inr sh, w2)"
    and "stdin w2 = l2 # rest"
    and "\<not> os_path_exists w2 (strip_char (CHR 0x22) (strip l2))"
  shows "main E w0 =
           (Inr (), w2\<lparr>stdin := rest,
                       trace := trace w2 @ [Prompt VideoPrompt, Print FileMissing]\<rparr>)"
proof -
  have ex: "os_path_exists (w2\<lparr>stdin := rest, trace := t\<rparr>) s = os_path_exists w2 s"
    for s t by (auto simp: os_path_exists_def locate_def split: option.splits)
  have "after_setup E sh w2 =
          (Inr (), w2\<lparr>stdin := rest, trace := trace w2 @ [Prompt VideoPrompt, Print FileMissing]\<rparr>)"
    using assms(3,4)
    by (simp add: after_setup_def bnd_def py_input_def Let_def ex print_def emit_def)
  with assms(1,2) show ?thesis by (simp add: main_def)
qed

lemma sample_first_prompt:
  "bnd (print Banner) (\<lambda>_. py_input RepoPrompt) (sample_world [''/home/repo'', ''/home/nothing.mkv''])
   = (Inr ''/home/repo'',
      \<lparr>fs = sample_fs, cwd = [''home''], stdin = [''/home/nothing.mkv''], now = sample_time,
       trace = [Print Banner, Prompt RepoPrompt]\<rparr>)"
  by (simp add: bnd_def print_def py_input_def emit_def sample_world_def)

lemma sample_setup_after_prompt:
  "fst (GitLFSVideoShare (sample_env ''https://github.com/alice/demo.git'') (strip ''/home/repo'')
      \<lparr>fs = sample_fs, cwd = [''home''], stdin = [''/home/nothing.mkv''], now = sample_time,
       trace = [Print Banner, Prompt RepoPrompt]\<rparr>) = Inr sample_sharer"
  "stdin (snd (GitLFSVideoShare (sample_env ''https://github.com/alice/demo.git'') (strip ''/home/repo'')
      \<lparr>fs = sample_fs, cwd = [''home''], stdin = [''/home/nothing.mkv''], now = sample_time,
       trace = [Print Banner, Prompt RepoPrompt]\<rparr>)) = [''/home/nothing.mkv'']"
  "\<not> os_path_exists (snd (GitLFSVideoShare (sample_env ''https://github.com/alice/demo.git'') (strip ''/home/repo'')
      \<lparr>fs = sample_fs, cwd = [''home''], stdin = [''/home/nothing.mkv''], now = sample_time,
       trace = [Print Banner, Prompt RepoPrompt]\<rparr>)) (strip_char (CHR 0x22) (strip ''/home/nothing.mkv''))"
  by code_simp+

theorem missing_video_stops_after_setup_witness:
  "fst (main (sample_env ''https://github.com/alice/demo.git'')
          (sample_world [''/home/repo'', ''/home/nothing.mkv''])) = Inr ()
   \<and> (let w2 = snd (GitLFSVideoShare (sample_env ''https://github.com/alice/demo.git'')
                    (strip ''/home/repo'')
                    \<lparr>fs = sample_fs, cwd = [''home''], stdin = [''/home/nothing.mkv''],
                     now = sample_time, trace = [Print Banner, Prompt RepoPrompt]\<rparr>);
           w3 = snd (main (sample_env ''https://github.com/alice/demo.git'')
                    (sample_world [''/home/repo'', ''/home/nothing.mkv'']))
       in fs w3 = fs w2 \<and> trace w3 = trace w2 @ [Prompt VideoPrompt, Print FileMissing])"
proof -
  let ?E = "sample_env ''https://github.com/alice/demo.git''"
  let ?w1 = "\<lparr>fs = sample_fs, cwd = [''home''], stdin = [''/home/nothing.mkv''],
                     now = sample_time, trace = [Print Banner, Prompt RepoPrompt]\<rparr>"
  let ?w2 = "snd (GitLFSVideoShare ?E (strip ''/home/repo'') ?w1)"
  have built: "GitLFSVideoShare ?E (strip ''/home/repo'') ?w1 = (Inr sample_sharer, ?w2)"
    using sample_setup_after_prompt(1) by (metis prod.collapse)
  from missing_video_stops_after_setup[OF sample_first_prompt built
      sample_setup_after_prompt(2) sample_setup_after_prompt(3)]
  show ?thesis by (simp add: Let_def)
qed

subsection \<open>Setting up a repository twice\<close>

text \<open>
  C5. A second initialization must leave an initialized repository alone. The program
  tests \<open>repo_path / '.git'\<close> after it has changed into the repository, so a relative
  repository path is resolved a second time from inside the repository. In the tree a first
  run has left, \<open>/home/repo/.git\<close> exists; started in \<open>/home\<close> with the path \<open>repo\<close> the
  program looks for \<open>/home/repo/repo/.git\<close>, finds nothing, runs \<open>git init\<close> and
  \<open>git lfs install\<close> again and writes \<open>.gitattributes\<close> again. With the absolute path
  \<open>/home/repo\<close> only the remote is queried.
\<close>

theorem relative_path_reinitializes:
  "fs (initialized_world []) [''home'', ''repo'', ''.git''] = Some Dir
   \<and> os_path_exists (initialized_world []) ''repo/.git''
   \<and> trace (snd (GitLFSVideoShare (sample_env ''https://github.com/alice/demo.git'') ''repo''
                 (initialized_world []))) =
       [Print InitGit,
        Exec [''home'', ''repo''] [''git'', ''init'']
          (Completed 0 ''Initialized empty Git repository'' []),
        FsWrite [''home'', ''repo'', ''.gitattributes''] (Data gitattributes),
        Exec [''home'', ''repo''] [''git'', ''lfs'', ''install''] (Completed 0 [] []),
        Exec [''home'', ''repo''] [''git'', ''config'', ''--get'', ''remote.origin.url'']
          (Completed 0 (''https://github.com/alice/demo.git'' @ [CHR 0x0A]) [])]
   \<and> trace (snd (GitLFSVideoShare (sample_env ''https://github.com/alice/demo.git'')
                 ''/home/repo'' (initialized_world []))) =
       [Exec [''home'', ''repo''] [''git'', ''config'', ''--get'', ''remote.origin.url'']
          (Completed 0 (''https://github.com/alice/demo.git'' @ [CHR 0x0A]) [])]"
  by code_simp

subsection \<open>Decimal digits and the timestamp\<close>

lemma below_ten: "k < 10 \<Longrightarrow> k \<in> {0, 1, 2, 3, 4, 5, 6, 7, 8, 9 :: nat}"
  by simp arith

lemma digit_in: "n < 10 \<Longrightarrow> digit n \<in> set ''0123456789''"
  by (auto dest!: below_ten simp: digit_def)



lemma show_nat_digits: "set (show_nat n) \<subseteq> set ''0123456789''"
proof (induction n rule: show_nat.induct)
  case (1 n)
  show ?case
  proof (cases "n < 10")
    case True
    then show ?thesis using digit_in[of n] by (subst show_nat.simps) simp
  next
    case False
    then have "set (show_nat (n div 10)) \<subseteq> set ''0123456789''" using 1 by simp
    moreover have "digit (n mod 10) \<in> set ''0123456789''" by (rule digit_in) simp
    ultimately show ?thesis using False by (subst show_nat.simps) simp
  qed
qed











subsection \<open>Names without a separator\<close>

lemma split_on_fields: "x \<in> set (split_on c s) \<Longrightarrow> c \<notin> set x"
  by (induction s arbitrary: x) (auto split: if_splits list.splits)

lemma pname_Path_no_sep: "CHR ''/'' \<notin> set (pname (Path s))"
proof (cases "parse_parts s = []")
  case True
  then show ?thesis by (simp add: pname_def Path_def)
next
  case False
  then have "last (parse_parts s) \<in> set (split_on CHR ''/'' s)"
    using last_in_set[OF False] by (simp add: parse_parts_def)
  then show ?thesis using False by (auto simp: pname_def Path_def dest: split_on_fields)
qed

lemma stem_subset: "set (stem p) \<subseteq> set (pname p)"
  by (auto simp: stem_def Let_def split: option.splits dest: in_set_takeD)

lemma pad2_digits_all: "set (pad2 n) \<subseteq> set ''0123456789''"
  using show_nat_digits[of n] by (auto simp: pad2_def)

lemma show_nat_no_sep: "CHR ''/'' \<notin> set (show_nat n)"
  using show_nat_digits[of n] by auto

lemma pad2_no_sep: "CHR ''/'' \<notin> set (pad2 n)"
  using pad2_digits_all[of n] by auto

lemma strftime_no_sep: "CHR ''/'' \<notin> set (strftime t)"
  by (simp add: strftime_def show_nat_no_sep pad2_no_sep)

subsection \<open>Joining one plain name to a path\<close>

lemma take1_no_sep: "CHR ''/'' \<notin> set s \<Longrightarrow> take 1 s \<noteq> ''/''"
  by (cases s) auto

lemma plain_name_parts:
  assumes "CHR ''/'' \<notin> set s" and "s \<noteq> []" and "s \<noteq> ''.''"
  shows "parse_parts s = [s]" and "splitroot s = []"
  using assms take1_no_sep[of s] by (simp_all add: parse_parts_def split_on_no_sep splitroot_def)

lemma joinpath_plain:
  assumes "CHR ''/'' \<notin> set s" and "s \<noteq> []" and "s \<noteq> ''.''"
  shows "joinpath p s = p\<lparr>tail := tail p @ [s]\<rparr>"
  using plain_name_parts[OF assms] by (simp add: joinpath_def)

lemma page_name_plain:
  "CHR ''/'' \<notin> set (page_name t title)" "page_name t title \<noteq> []" "page_name t title \<noteq> ''.''"
proof -
  have "CHR ''/'' \<notin> set (stem (Path title))"
    using stem_subset[of "Path title"] pname_Path_no_sep[of title] by blast
  then show "CHR ''/'' \<notin> set (page_name t title)"
    by (simp add: page_name_def strftime_no_sep)
  have "CHR ''_'' \<in> set (page_name t title)" by (simp add: page_name_def)
  then show "page_name t title \<noteq> []" "page_name t title \<noteq> ''.''" by auto
qed

lemma page_path:
  "joinpath p (page_name t title) = p\<lparr>tail := tail p @ [page_name t title]\<rparr>"
  by (rule joinpath_plain[OF page_name_plain])


subsection \<open>What a successful step has done\<close>

lemma write_file_Inr:
  "write_file s c w = (Inr u, w') \<Longrightarrow>
     \<exists>l. locate w s = Some l \<and> fs w l \<noteq> Some Dir
         \<and> w' = emit (FsWrite l c) (w\<lparr>fs := (fs w)(l \<mapsto> File c)\<rparr>)"
  by (auto simp: write_file_def split: option.splits node.splits)

lemma relpath_world: "relpath a b w = (r, w') \<Longrightarrow> w' = w"
  by (auto simp: relpath_def Let_def split: if_splits)

lemma create_player_page_Inr:
  assumes "create_player_page self vpath title w = (Inr p, w')"
  shows "\<exists>rel l. relpath (pstr vpath) (pstr (repo_path self)) w = (Inr rel, w)
           \<and> p = joinpath (pages_dir self) (page_name (now w) title)
           \<and> locate w (pstr p) = Some l \<and> fs w l \<noteq> Some Dir
           \<and> w' = emit (FsWrite l (Data (html_content rel title)))
                    (w\<lparr>fs := (fs w)(l \<mapsto> File (Data (html_content rel title)))\<rparr>)"
proof -
  from assms obtain rel w1 where r: "relpath (pstr vpath) (pstr (repo_path self)) w = (Inr rel, w1)"
    and rest: "(let ppage = joinpath (pages_dir self) (page_name (now w1) title)
         in bnd (write_file (pstr ppage) (Data (html_content rel title))) (\<lambda>_. ret ppage) w1) = (Inr p, w')"
    unfolding create_player_page_def by (blast dest: bnd_Inr)
  have w1: "w1 = w" using r by (rule relpath_world)
  define ppage where "ppage = joinpath (pages_dir self) (page_name (now w) title)"
  from rest obtain u w2 where wr: "write_file (pstr ppage) (Data (html_content rel title)) w = (Inr u, w2)"
    and fin: "ret ppage w2 = (Inr p, w')"
    unfolding w1 ppage_def Let_def by (blast dest: bnd_Inr)
  from fin have p: "p = ppage" and w': "w' = w2" by (simp_all add: ret_def)
  from write_file_Inr[OF wr] obtain l where "locate w (pstr ppage) = Some l" "fs w l \<noteq> Some Dir"
    "w2 = emit (FsWrite l (Data (html_content rel title)))
            (w\<lparr>fs := (fs w)(l \<mapsto> File (Data (html_content rel title)))\<rparr>)"
    by blast
  with r w1 p w' ppage_def show ?thesis by auto
qed

lemma html_content_split:
  \<open>html_content rel title =
     (unlines (html_head title @ take 4 (html_body rel title)) @ ''            '')
     @ ''<source src="/'' @ rel @ ''" type="video/mp4">''
     @ (CHR 0x0A # unlines (drop 5 (html_body rel title)))\<close>
  by (simp add: html_content_def html_body_def unlines_def source_line_def)

subsection \<open>One concrete page\<close>

lemma sample_page:
  "create_player_page sample_sharer (Path ''/home/repo/videos/clip.mkv'') ''clip.mkv''
     (ready_world []) =
   (Inr \<lparr>root = ''/'', tail = [''home'', ''repo'', ''pages'', ''20240309_070500_clip.html'']\<rparr>,
    emit (FsWrite [''home'', ''repo'', ''pages'', ''20240309_070500_clip.html'']
            (Data (html_content ''videos/clip.mkv'' ''clip.mkv'')))
      ((ready_world [])\<lparr>fs := (fs (ready_world []))
         ([''home'', ''repo'', ''pages'', ''20240309_070500_clip.html'']
            \<mapsto> File (Data (html_content ''videos/clip.mkv'' ''clip.mkv'')))\<rparr>))"
proof -
  let ?w = "ready_world []"
  have r: "relpath (pstr (Path ''/home/repo/videos/clip.mkv'')) (pstr (repo_path sample_sharer)) ?w
           = (Inr ''videos/clip.mkv'', ?w)"
    by (simp add: relpath_def abspath_def normpath_def Let_def pstr_def Path_def splitroot_def
          parse_parts_def sample_sharer_def)
  have pn: "page_name (now ?w) ''clip.mkv'' = ''20240309_070500_clip.html''"
    by (simp add: page_name_def strftime_def pad2_def show_nat.simps digit_def sample_time_def
          stem_def pname_def Path_def parse_parts_def splitroot_def ready_world_def)
  have pp: "joinpath (pages_dir sample_sharer) ''20240309_070500_clip.html''
        = \<lparr>root = ''/'', tail = [''home'', ''repo'', ''pages'', ''20240309_070500_clip.html'']\<rparr>"
    by (simp add: joinpath_def sample_sharer_def Path_def splitroot_def parse_parts_def)
  have ps: "pstr \<lparr>root = ''/'', tail = [''home'', ''repo'', ''pages'', ''20240309_070500_clip.html'']\<rparr>
        = ''/home/repo/pages/20240309_070500_clip.html''"
    by (simp add: pstr_def)
  have loc: "locate ?w ''/home/repo/pages/20240309_070500_clip.html''
        = Some [''home'', ''repo'', ''pages'', ''20240309_070500_clip.html'']"
    by (simp add: locate_def ready_world_def ready_fs_def sample_fs_def)
  have free: "fs ?w [''home'', ''repo'', ''pages'', ''20240309_070500_clip.html''] = None"
    by (simp add: ready_world_def ready_fs_def sample_fs_def)
  show ?thesis
    by (simp add: create_player_page_def bnd_def r pn pp ps Let_def write_file_def loc free
          ret_def)
qed

subsection \<open>The media type of the page\<close>

text \<open>
  C9. Whatever the video and the title are, the page that \<open>create_player_page\<close> writes
  holds a \<open>source\<close> element whose \<open>src\<close> is a slash followed by the relative path the
  function computed, and whose type is the fixed \<open>video/mp4\<close>; the extension of the video
  plays no part.
\<close>

theorem page_source_is_mp4:
  assumes "create_player_page self vpath title w = (Inr p, w')"
  shows \<open>\<exists>l rel pre post.
           relpath (pstr vpath) (pstr (repo_path self)) w = (Inr rel, w)
         \<and> locate w (pstr p) = Some l
         \<and> fs w' l = Some (File (Data
             (pre @ ''<source src="/'' @ rel @ ''" type="video/mp4">'' @ post)))\<close>
proof -
  from create_player_page_Inr[OF assms] obtain rel l
    where r: "relpath (pstr vpath) (pstr (repo_path self)) w = (Inr rel, w)"
      and l: "locate w (pstr p) = Some l"
      and w': "w' = emit (FsWrite l (Data (html_content rel title)))
                    (w\<lparr>fs := (fs w)(l \<mapsto> File (Data (html_content rel title)))\<rparr>)"
    by blast
  have "fs w' l = Some (File (Data (html_content rel title)))"
    by (simp add: w' emit_def)
  with r l html_content_split[of rel title] show ?thesis by metis
qed

theorem page_source_is_mp4_witness:
  \<open>create_player_page sample_sharer (Path ''/home/repo/videos/clip.mkv'') ''clip.mkv''
     (ready_world []) =
   (Inr \<lparr>root = ''/'', tail = [''home'', ''repo'', ''pages'', ''20240309_070500_clip.html'']\<rparr>,
    emit (FsWrite [''home'', ''repo'', ''pages'', ''20240309_070500_clip.html'']
            (Data (html_content ''videos/clip.mkv'' ''clip.mkv'')))
      ((ready_world [])\<lparr>fs := (fs (ready_world []))
         ([''home'', ''repo'', ''pages'', ''20240309_070500_clip.html'']
            \<mapsto> File (Data (html_content ''videos/clip.mkv'' ''clip.mkv'')))\<rparr>))
   \<and> (\<exists>pre post. html_content ''videos/clip.mkv'' ''clip.mkv'' =
          pre @ ''<source src="/videos/clip.mkv" type="video/mp4">'' @ post)\<close>
proof -
  let ?l = "[''home'', ''repo'', ''pages'', ''20240309_070500_clip.html'']"
  let ?w' = "emit (FsWrite ?l (Data (html_content ''videos/clip.mkv'' ''clip.mkv'')))
      ((ready_world [])\<lparr>fs := (fs (ready_world []))
         (?l \<mapsto> File (Data (html_content ''videos/clip.mkv'' ''clip.mkv'')))\<rparr>)"
  have r: "relpath (pstr (Path ''/home/repo/videos/clip.mkv'')) (pstr (repo_path sample_sharer))
             (ready_world []) = (Inr ''videos/clip.mkv'', ready_world [])"
    by (simp add: relpath_def abspath_def normpath_def Let_def pstr_def Path_def splitroot_def
          parse_parts_def sample_sharer_def)
  have loc: "locate (ready_world []) (pstr \<lparr>root = ''/'', tail = ?l\<rparr>) = Some ?l"
    by (simp add: pstr_def locate_def ready_world_def ready_fs_def sample_fs_def)
  have now: "fs ?w' ?l = Some (File (Data (html_content ''videos/clip.mkv'' ''clip.mkv'')))"
    by (simp add: emit_def)
  from page_source_is_mp4[OF sample_page] r loc now
  have \<open>\<exists>pre post. html_content ''videos/clip.mkv'' ''clip.mkv'' =
          pre @ ''<source src="/videos/clip.mkv" type="video/mp4">'' @ post\<close>
    by auto
  with sample_page show ?thesis by blast
qed

subsection \<open>The parts of a path string\<close>

lemma parse_parts_append_sep: "parse_parts (a @ CHR ''/'' # b) = parse_parts a @ parse_parts b"
  by (simp add: parse_parts_def split_on_append_sep)

lemma parse_parts_Nil [simp]: "parse_parts [] = []"
  by (simp add: parse_parts_def)

lemma parse_parts_sep_first: "parse_parts (CHR ''/'' # s) = parse_parts s"
  using parse_parts_append_sep[of "[]" s] by simp

lemma parse_parts_dot [simp]: "parse_parts ''.'' = []"
  by (simp add: parse_parts_def)

lemma parse_parts_part: "part_ok s \<Longrightarrow> parse_parts s = [s]"
  by (simp add: parse_parts_def part_ok_def split_on_no_sep)

lemma parse_parts_join:
  "\<forall>x \<in> set xs. part_ok x \<Longrightarrow> parse_parts (join_with ''/'' xs) = xs"
proof (induction "''/''" xs rule: join_with.induct)
  case 1
  then show ?case by simp
next
  case (2 x)
  then show ?case by (simp add: parse_parts_part)
next
  case (3 x y ys)
  then have "parse_parts (x @ CHR ''/'' # join_with ''/'' (y # ys)) = x # y # ys"
    by (simp only: parse_parts_append_sep) (simp add: parse_parts_part)
  then show ?case by simp
qed

lemma parse_parts_ok: "\<forall>x \<in> set (parse_parts s). part_ok x"
  by (auto simp: parse_parts_def part_ok_def dest: split_on_fields)

lemma split_join:
  "xs \<noteq> [] \<Longrightarrow> \<forall>x \<in> set xs. CHR ''/'' \<notin> set x \<Longrightarrow> split_on CHR ''/'' (join_with ''/'' xs) = xs"
proof (induction "''/''" xs rule: join_with.induct)
  case 1
  then show ?case by simp
next
  case (2 x)
  then show ?case by (simp add: split_on_no_sep)
next
  case (3 x y ys)
  then have "split_on CHR ''/'' (x @ CHR ''/'' # join_with ''/'' (y # ys)) = x # y # ys"
    by (simp only: split_on_append_sep) (simp add: split_on_no_sep)
  then show ?case by simp
qed

lemma nonempty_fields_join:
  assumes "\<forall>x \<in> set xs. x \<noteq> [] \<and> CHR ''/'' \<notin> set x"
  shows "filter (\<lambda>x. x \<noteq> []) (split_on CHR ''/'' (join_with ''/'' xs)) = xs"
proof (cases "xs = []")
  case True
  then show ?thesis by simp
next
  case False
  with assms have "split_on CHR ''/'' (join_with ''/'' xs) = xs" by (intro split_join) auto
  with assms show ?thesis by (simp add: filter_id_conv)
qed

lemma nonempty_fields_sep_first:
  "filter (\<lambda>x. x \<noteq> []) (split_on CHR ''/'' (CHR ''/'' # s)) = filter (\<lambda>x. x \<noteq> []) (split_on CHR ''/'' s)"
  by simp

subsection \<open>Normalising a path\<close>

lemma norm_comps_skip:
  "norm_comps i acc xs = norm_comps i acc (filter (\<lambda>c. c \<noteq> [] \<and> c \<noteq> ''.'') xs)"
  by (induction xs arbitrary: acc) auto

lemma norm_comps_split: "norm_comps i acc (split_on CHR ''/'' s) = norm_comps i acc (parse_parts s)"
  unfolding parse_parts_def by (rule norm_comps_skip)

lemma norm_comps_append:
  "norm_comps i acc (xs @ ys) = norm_comps i (norm_comps i acc xs) ys"
  by (induction xs arbitrary: acc) auto

lemma norm_comps_plain: "plain_name a \<Longrightarrow> norm_comps i acc [a] = acc @ [a]"
  by (simp add: plain_name_def part_ok_def)

lemma norm_comps_fields:
  assumes "\<forall>x \<in> set acc. x \<noteq> [] \<and> CHR ''/'' \<notin> set x" and "\<forall>x \<in> set xs. CHR ''/'' \<notin> set x"
  shows "\<forall>x \<in> set (norm_comps i acc xs). x \<noteq> [] \<and> CHR ''/'' \<notin> set x"
  using assms
proof (induction xs arbitrary: acc)
  case Nil
  then show ?case by simp
next
  case (Cons c cs)
  have cs: "\<forall>x \<in> set cs. CHR ''/'' \<notin> set x" and c: "CHR ''/'' \<notin> set c"
    using Cons.prems(2) by simp_all
  have b: "\<forall>x \<in> set (butlast acc). x \<noteq> [] \<and> CHR ''/'' \<notin> set x"
    using Cons.prems(1) by (meson in_set_butlastD)
  have "norm_comps i acc (c # cs) = norm_comps i acc cs
      \<or> (c \<noteq> [] \<and> norm_comps i acc (c # cs) = norm_comps i (acc @ [c]) cs)
      \<or> norm_comps i acc (c # cs) = norm_comps i (butlast acc) cs"
    by simp
  then show ?case
  proof (elim disjE conjE)
    assume "norm_comps i acc (c # cs) = norm_comps i acc cs"
    with Cons.IH[OF Cons.prems(1) cs] show ?thesis by simp
  next
    assume ne: "c \<noteq> []" and eq: "norm_comps i acc (c # cs) = norm_comps i (acc @ [c]) cs"
    have "\<forall>x \<in> set (acc @ [c]). x \<noteq> [] \<and> CHR ''/'' \<notin> set x"
      using Cons.prems(1) ne c by simp
    from Cons.IH[OF this cs] eq show ?thesis by simp
  next
    assume "norm_comps i acc (c # cs) = norm_comps i (butlast acc) cs"
    with Cons.IH[OF b cs] show ?thesis by simp
  qed
qed

lemma normpath_shape:
  assumes "take 1 s = ''/''"
  shows "normpath s = ''/'' @ join_with ''/'' (norm_comps True [] (split_on CHR ''/'' s))
       \<or> normpath s = ''//'' @ join_with ''/'' (norm_comps True [] (split_on CHR ''/'' s))"
proof -
  from assms have ne: "s \<noteq> []" by auto
  show ?thesis
  proof (cases "take 2 s = ''//'' \<and> take 3 s \<noteq> ''///''")
    case True
    then have "normpath s = ''//'' @ join_with ''/'' (norm_comps True [] (split_on CHR ''/'' s))"
      using assms ne unfolding normpath_def Let_def by (simp add: numeral_2_eq_2)
    then show ?thesis by blast
  next
    case False
    then have "normpath s = ''/'' @ join_with ''/'' (norm_comps True [] (split_on CHR ''/'' s))"
      using assms ne by (auto simp: normpath_def Let_def)
    then show ?thesis by blast
  qed
qed

lemma normpath_rooted:
  assumes "take 1 s = ''/''"
  shows "filter (\<lambda>x. x \<noteq> []) (split_on CHR ''/'' (normpath s)) = norm_comps True [] (parse_parts s)"
proof -
  let ?comps = "norm_comps True [] (split_on CHR ''/'' s)"
  have "\<forall>x \<in> set (split_on CHR ''/'' s). CHR ''/'' \<notin> set x"
    by (meson split_on_fields)
  then have ok: "\<forall>x \<in> set ?comps. x \<noteq> [] \<and> CHR ''/'' \<notin> set x"
    by (intro norm_comps_fields) simp_all
  have j: "filter (\<lambda>x. x \<noteq> []) (split_on CHR ''/'' (join_with ''/'' ?comps)) = ?comps"
    by (rule nonempty_fields_join[OF ok])
  from normpath_shape[OF assms]
  have "filter (\<lambda>x. x \<noteq> []) (split_on CHR ''/'' (normpath s)) = ?comps"
  proof
    assume "normpath s = ''/'' @ join_with ''/'' ?comps"
    then show ?thesis using j by simp
  next
    assume "normpath s = ''//'' @ join_with ''/'' ?comps"
    then show ?thesis using j by simp
  qed
  then show ?thesis by (simp add: norm_comps_split)
qed

lemma part_ok_last: "part_ok x \<Longrightarrow> x \<noteq> [] \<and> last x \<noteq> CHR ''/'' \<and> hd x \<noteq> CHR ''/''"
  unfolding part_ok_def by (metis hd_in_set last_in_set)

lemma join_with_ends:
  "xs \<noteq> [] \<Longrightarrow> \<forall>x \<in> set xs. part_ok x \<Longrightarrow>
     join_with ''/'' xs \<noteq> [] \<and> last (join_with ''/'' xs) \<noteq> CHR ''/''
     \<and> hd (join_with ''/'' xs) \<noteq> CHR ''/''"
proof (induction "''/''" xs rule: join_with.induct)
  case 1
  then show ?case by simp
next
  case (2 x)
  then show ?case using part_ok_last[of x] by simp
next
  case (3 x y ys)
  then have "join_with ''/'' (y # ys) \<noteq> []" "last (join_with ''/'' (y # ys)) \<noteq> CHR ''/''"
    by auto
  moreover from 3(3) have "x \<noteq> []" "hd x \<noteq> CHR ''/''" using part_ok_last[of x] by auto
  ultimately show ?case by simp
qed

lemma take1_hd: "s \<noteq> [] \<Longrightarrow> hd s \<noteq> CHR ''/'' \<Longrightarrow> take 1 s \<noteq> ''/''"
  by (cases s) auto

lemma getcwd_parts: "\<forall>x \<in> set (cwd w). part_ok x \<Longrightarrow> parse_parts (getcwd w) = cwd w"
  by (simp add: getcwd_def parse_parts_sep_first parse_parts_join)

lemma relative_pstr:
  assumes "root q = []" and "\<forall>x \<in> set (tail q). part_ok x"
  shows "take 1 (pstr q) \<noteq> ''/''" and "parse_parts (pstr q) = tail q"
proof -
  show "take 1 (pstr q) \<noteq> ''/''"
  proof (cases "tail q = []")
    case True
    with assms(1) show ?thesis by (simp add: pstr_def)
  next
    case False
    from join_with_ends[OF False assms(2)] take1_hd[of "join_with ''/'' (tail q)"] assms(1)
    show ?thesis by (simp add: pstr_def)
  qed
  show "parse_parts (pstr q) = tail q"
  proof (cases "tail q = []")
    case True
    with assms(1) show ?thesis by (simp add: pstr_def)
  next
    case False
    from join_with_ends[OF False assms(2)] assms show ?thesis
      by (simp add: pstr_def parse_parts_join)
  qed
qed

lemma rooted_pstr:
  assumes "root q = ''/'' \<or> root q = ''//''" and "\<forall>x \<in> set (tail q). part_ok x"
  shows "take 1 (pstr q) = ''/''" and "parse_parts (pstr q) = tail q"
  using assms by (auto simp: pstr_def parse_parts_sep_first parse_parts_join)

lemma abspath_fields:
  assumes root: "root q = [] \<or> root q = ''/'' \<or> root q = ''//''"
    and tail: "\<forall>x \<in> set (tail q). part_ok x"
    and cw: "\<forall>x \<in> set (cwd w). part_ok x"
  shows "filter (\<lambda>x. x \<noteq> []) (split_on CHR ''/'' (abspath w (pstr q)))
         = norm_comps True [] ((if root q = [] then cwd w else []) @ tail q)"
proof (cases "root q = []")
  case False
  with root have r: "root q = ''/'' \<or> root q = ''//''" by blast
  from rooted_pstr[OF r tail] False show ?thesis by (simp add: abspath_def normpath_rooted)
next
  case True
  note rel = relative_pstr[OF True tail]
  let ?s = "os_path_join (getcwd w) (pstr q)"
  have g: "getcwd w = CHR ''/'' # join_with ''/'' (cwd w)" by (simp add: getcwd_def)
  have st: "take 1 ?s = ''/''" using rel(1) by (simp add: os_path_join_def g)
  have "parse_parts ?s = cwd w @ tail q"
  proof (cases "cwd w = []")
    case True
    then show ?thesis using rel by (simp add: os_path_join_def g parse_parts_sep_first)
  next
    case False
    from join_with_ends[OF False cw]
    have "?s = getcwd w @ CHR ''/'' # pstr q"
      using rel(1) by (simp add: os_path_join_def g)
    then show ?thesis using rel(2) cw by (simp add: parse_parts_append_sep getcwd_parts)
  qed
  with st rel(1) True show ?thesis by (simp add: abspath_def normpath_rooted)
qed

subsection \<open>The relative path of a file two levels below\<close>

lemma common_prefix_extension: "longest_common_prefix xs (xs @ ys) = xs"
  by (induction xs) auto

lemma pstr_not_Nil: "pstr q \<noteq> []"
  by (simp add: pstr_def Let_def)

lemma relpath_child:
  assumes root: "root q = [] \<or> root q = ''/'' \<or> root q = ''//''"
    and tail: "\<forall>x \<in> set (tail q). part_ok x"
    and cw: "\<forall>x \<in> set (cwd w). part_ok x"
    and a: "plain_name a" and b: "plain_name b"
  shows "relpath (pstr (q\<lparr>tail := tail q @ [a, b]\<rparr>)) (pstr q) w = (Inr (a @ ''/'' @ b), w)"
proof -
  let ?q' = "q\<lparr>tail := tail q @ [a, b]\<rparr>"
  let ?base = "if root q = [] then cwd w else []"
  let ?n = "norm_comps True [] (?base @ tail q)"
  have tail': "\<forall>x \<in> set (tail ?q'). part_ok x"
    using tail a b by (simp add: plain_name_def)
  have s: "filter (\<lambda>x. x \<noteq> []) (split_on CHR ''/'' (abspath w (pstr q))) = ?n"
    by (rule abspath_fields[OF root tail cw])
  have "filter (\<lambda>x. x \<noteq> []) (split_on CHR ''/'' (abspath w (pstr ?q')))
        = norm_comps True [] (?base @ tail q @ [a, b])"
    using abspath_fields[of ?q' w] root tail' cw by simp
  also have "\<dots> = norm_comps True (norm_comps True ?n [a]) [b]"
    using norm_comps_append[of True "[]" "?base @ tail q" "[a, b]"]
      norm_comps_append[of True ?n "[a]" "[b]"] by simp
  also have "\<dots> = ?n @ [a, b]"
    by (simp only: norm_comps_plain[OF a] norm_comps_plain[OF b]) simp
  finally have p: "filter (\<lambda>x. x \<noteq> []) (split_on CHR ''/'' (abspath w (pstr ?q'))) = ?n @ [a, b]" .
  show ?thesis
    unfolding relpath_def Let_def s p
    by (simp add: pstr_not_Nil common_prefix_extension)
qed

lemma plain_name_join: "plain_name s \<Longrightarrow> joinpath p s = p\<lparr>tail := tail p @ [s]\<rparr>"
  by (rule joinpath_plain) (simp_all add: plain_name_def part_ok_def)

lemma plain_videos: "plain_name ''videos''" and plain_pages: "plain_name ''pages''"
  and plain_qrcodes: "plain_name ''qrcodes''"
  by (simp_all add: plain_name_def part_ok_def)

lemma Path_tail_ok: "\<forall>x \<in> set (tail (Path s)). part_ok x"
  using parse_parts_ok[of s] by (simp add: Path_def)

lemma relpath_video:
  assumes "\<forall>x \<in> set (cwd w). part_ok x" and "plain_name name"
  shows "relpath (pstr (joinpath (joinpath (Path rp) ''videos'') name)) (pstr (Path rp)) w
         = (Inr (''videos/'' @ name), w)"
  using relpath_child[OF Path_root Path_tail_ok assms(1) plain_videos assms(2), of rp]
  by (simp add: plain_name_join[OF plain_videos] plain_name_join[OF assms(2)])

subsection \<open>The steps of a successful share\<close>

lemma unit_result: "(m :: unit action) w = (Inr u, w1) \<Longrightarrow> m w = (Inr (), w1)"
  by simp

lemma share_try_Inr:
  assumes "share_try E self vp w = (Inr info, w')"
  shows "\<exists>w1 ppage w2 prel w3 w4 o1 w5 o2.
      copy2 vp (pstr (joinpath (videos_dir self) (pname (Path vp)))) w = (Inr (), w1)
    \<and> create_player_page self (joinpath (videos_dir self) (pname (Path vp))) (pname (Path vp)) w1
        = (Inr ppage, w2)
    \<and> relative_to ppage (repo_path self) = Inr prel
    \<and> qr_fits E (url_text (github_pages_url self) @ ''/'' @ pstr prel)
    \<and> mkdir_exist_ok (parent (joinpath (joinpath (repo_path self) ''qrcodes'')
          (stem (Path (pname (Path vp))) @ ''_qr.png''))) w2 = (Inr (), w3)
    \<and> write_file (pstr (joinpath (joinpath (repo_path self) ''qrcodes'')
          (stem (Path (pname (Path vp))) @ ''_qr.png'')))
          (QRImage (url_text (github_pages_url self) @ ''/'' @ pstr prel)) w3 = (Inr (), w4)
    \<and> run_command E [''git'', ''add'', ''.''] w4 = (Inr o1, w5)
    \<and> run_command E [''git'', ''commit'', ''-m'', ''Add video: '' @ pname (Path vp)] w5
        = (Inr o2, w')
    \<and> info = \<lparr>video_path = pstr (joinpath (videos_dir self) (pname (Path vp))),
               page_path = pstr ppage,
               page_url = url_text (github_pages_url self) @ ''/'' @ pstr prel,
               qr_path = pstr (joinpath (joinpath (repo_path self) ''qrcodes'')
                           (stem (Path (pname (Path vp))) @ ''_qr.png''))\<rparr>"
proof -
  let ?name = "pname (Path vp)"
  let ?target = "joinpath (videos_dir self) ?name"
  let ?pqr = "joinpath (joinpath (repo_path self) ''qrcodes'') (stem (Path ?name) @ ''_qr.png'')"
  let ?url = "\<lambda>prel. url_text (github_pages_url self) @ ''/'' @ pstr prel"
  let ?k5 = "\<lambda>ppage prel. bnd (run_command E [''git'', ''commit'', ''-m'', ''Add video: '' @ ?name]) (\<lambda>_.
      ret \<lparr>video_path = pstr ?target, page_path = pstr ppage,
            page_url = ?url prel, qr_path = pstr ?pqr\<rparr>)"
  let ?k4 = "\<lambda>ppage prel. bnd (run_command E [''git'', ''add'', ''.'']) (\<lambda>_. ?k5 ppage prel)"
  let ?k3 = "\<lambda>ppage prel qr_image. bnd (write_file (pstr ?pqr) qr_image) (\<lambda>_. ?k4 ppage prel)"
  let ?k2 = "\<lambda>ppage prel qr_image. bnd (mkdir_exist_ok (parent ?pqr)) (\<lambda>_. ?k3 ppage prel qr_image)"
  let ?k1 = "\<lambda>ppage prel. bnd (qr_make E (?url prel)) (\<lambda>qr_image. ?k2 ppage prel qr_image)"
  let ?k0 = "\<lambda>ppage. bnd (\<lambda>w. (relative_to ppage (repo_path self), w)) (\<lambda>prel. ?k1 ppage prel)"
  have unf: "share_try E self vp =
      bnd (copy2 vp (pstr ?target)) (\<lambda>_.
      bnd (create_player_page self ?target ?name) (\<lambda>ppage. ?k0 ppage))"
    by (simp add: share_try_def Let_def)
  from bnd_Inr[OF assms[unfolded unf]] obtain u1 w1 where s1: "copy2 vp (pstr ?target) w = (Inr u1, w1)"
    and r1: "bnd (create_player_page self ?target ?name) (\<lambda>ppage. ?k0 ppage) w1 = (Inr info, w')"
    by (elim exE conjE) (rule that)
  from bnd_Inr[OF r1] obtain ppage w2 where s2: "create_player_page self ?target ?name w1 = (Inr ppage, w2)"
    and r2: "?k0 ppage w2 = (Inr info, w')"
    by (elim exE conjE) (rule that)
  from bnd_Inr[OF r2] obtain prel w2' where s3: "(relative_to ppage (repo_path self), w2) = (Inr prel, w2')"
    and r3: "?k1 ppage prel w2' = (Inr info, w')"
    by (elim exE conjE) (rule that)
  from s3 have s3': "relative_to ppage (repo_path self) = Inr prel" and w2': "w2' = w2" by simp_all
  from bnd_Inr[OF r3[unfolded w2']] obtain img w2'' where s4: "qr_make E (?url prel) w2 = (Inr img, w2'')"
    and r4: "?k2 ppage prel img w2'' = (Inr info, w')"
    by (elim exE conjE) (rule that)
  from s4 have fits: "qr_fits E (?url prel)" and img: "img = QRImage (?url prel)" and w2'': "w2'' = w2"
    by (auto simp: qr_make_def split: if_splits)
  from bnd_Inr[OF r4[unfolded w2'']] obtain u5 w3 where s5: "mkdir_exist_ok (parent ?pqr) w2 = (Inr u5, w3)"
    and r5: "?k3 ppage prel img w3 = (Inr info, w')"
    by (elim exE conjE) (rule that)
  from bnd_Inr[OF r5] obtain u6 w4 where s6: "write_file (pstr ?pqr) img w3 = (Inr u6, w4)"
    and r6: "?k4 ppage prel w4 = (Inr info, w')"
    by (elim exE conjE) (rule that)
  from bnd_Inr[OF r6] obtain o1 w5 where s7: "run_command E [''git'', ''add'', ''.''] w4 = (Inr o1, w5)"
    and r7: "?k5 ppage prel w5 = (Inr info, w')"
    by (elim exE conjE) (rule that)
  from bnd_Inr[OF r7] obtain o2 w6 where s8: "run_command E [''git'', ''commit'', ''-m'', ''Add video: '' @ ?name] w5 = (Inr o2, w6)"
    and r8: "ret \<lparr>video_path = pstr ?target, page_path = pstr ppage,
            page_url = ?url prel, qr_path = pstr ?pqr\<rparr> w6 = (Inr info, w')"
    by (elim exE conjE) (rule that)
  from r8 have fin: "info = \<lparr>video_path = pstr ?target, page_path = pstr ppage,
            page_url = ?url prel, qr_path = pstr ?pqr\<rparr>" "w6 = w'"
    by (simp_all add: ret_def)
  have t1: "copy2 vp (pstr ?target) w = (Inr (), w1)" using s1 by simp
  have t5: "mkdir_exist_ok (parent ?pqr) w2 = (Inr (), w3)" using s5 by simp
  have t6: "write_file (pstr ?pqr) (QRImage (?url prel)) w3 = (Inr (), w4)"
    using s6 img by simp
  note facts = t1 s2 s3' fits t5 t6 s7 s8[unfolded fin(2)] fin(1)
  show ?thesis
    by (rule exI[of _ w1], rule exI[of _ ppage], rule exI[of _ w2], rule exI[of _ prel],
        rule exI[of _ w3], rule exI[of _ w4], rule exI[of _ o1], rule exI[of _ w5],
        rule exI[of _ o2], intro conjI) (rule facts)+
qed

lemma copy2_Inr:
  assumes "copy2 src dst w = (Inr u, w1)"
  shows "\<exists>c lv ls. locate w src = Some ls \<and> fs w ls = Some (File c) \<and> fs w lv \<noteq> Some Dir
           \<and> (\<not> os_path_isdir w dst \<longrightarrow> locate w dst = Some lv)
           \<and> w1 = emit (FsWrite lv c) (w\<lparr>fs := (fs w)(lv \<mapsto> File c)\<rparr>)"
proof -
  define dst' where "dst' = (if os_path_isdir w dst
                  then (if dst \<noteq> [] \<and> last dst = CHR ''/'' then dst else dst @ ''/'')
                       @ last (split_on CHR ''/'' src)
                  else dst)"
  from assms obtain ls c where ls: "locate w src = Some ls" "fs w ls = Some (File c)"
    and wr: "write_file dst' c w = (Inr u, w1)"
    unfolding copy2_def Let_def dst'_def[symmetric]
    by (auto split: if_splits option.splits node.splits)
  from write_file_Inr[OF wr] obtain lv where "locate w dst' = Some lv" "fs w lv \<noteq> Some Dir"
    "w1 = emit (FsWrite lv c) (w\<lparr>fs := (fs w)(lv \<mapsto> File c)\<rparr>)" by blast
  with ls show ?thesis unfolding dst'_def
    by (rule_tac x = c in exI, rule_tac x = lv in exI, rule_tac x = ls in exI)
       (auto split: if_splits)
qed


lemma relpath_cwd:
  assumes "cwd w1 = cwd w"
  shows "fst (relpath a b w1) = fst (relpath a b w)"
proof -
  have "abspath w1 = abspath w" using assms by (simp add: abspath_def getcwd_def fun_eq_iff)
  then show ?thesis by (cases "a = []") (simp_all add: relpath_def Let_def)
qed

lemma relpath_fst: "relpath a b w = (fst (relpath a b w), w)"
  by (simp add: relpath_def Let_def)

subsection \<open>The name of the page file\<close>








subsection \<open>Where setup writes\<close>







subsection \<open>The current directory after setup\<close>





end
